theory Spec2Isabelle
  imports Main "HOL-Library.Sublist"
begin

section \<open>Values of the JavaScript program\<close>

text \<open>
  A JSON value as \<^verbatim>\<open>JSON.parse\<close>, the body parsers and the query parser produce it.
  An object is the list of its own properties in enumeration order (keys distinct).
  Numbers are restricted to the integers; booleans, numbers and \<^verbatim>\<open>null\<close> never
  contain text, so the restriction does not touch any string the program looks at.
  Strings are lists of 8-bit characters (code units up to 255).
\<close>

datatype json =
    JNull
  | JBool bool
  | JNum int
  | JStr string
  | JArr "json list"
  | JObj "(string \<times> json) list"

text \<open>JavaScript truthiness of a value; \<open>None\<close> stands for \<^verbatim>\<open>undefined\<close>.\<close>

fun truthy :: "json \<Rightarrow> bool" where
  "truthy JNull = False"
| "truthy (JBool b) = b"
| "truthy (JNum n) = (n \<noteq> 0)"
| "truthy (JStr s) = (s \<noteq> [])"
| "truthy (JArr xs) = True"
| "truthy (JObj kvs) = True"

fun truthy_opt :: "json option \<Rightarrow> bool" where
  "truthy_opt None = False"
| "truthy_opt (Some v) = truthy v"

text \<open>\<^verbatim>\<open>a || b\<close>: the left operand when it is truthy, the right one otherwise.\<close>

definition js_or :: "json option \<Rightarrow> json option \<Rightarrow> json option" where
  "js_or a b = (if truthy_opt a then a else b)"

text \<open>\<^verbatim>\<open>s.includes(pat)\<close>: \<open>pat\<close> occurs in \<open>s\<close> as a contiguous substring.\<close>

fun js_includes :: "string \<Rightarrow> string \<Rightarrow> bool" where
  "js_includes [] pat = (pat = [])"
| "js_includes (c # cs) pat = (prefix pat (c # cs) \<or> js_includes cs pat)"

text \<open>
  \<^verbatim>\<open>s.replace(pat, rep)\<close> with a string pattern: only the first occurrence of
  \<open>pat\<close> is replaced (for a replacement free of \<^verbatim>\<open>$\<close>, as the empty one is).
\<close>

fun js_replace :: "string \<Rightarrow> string \<Rightarrow> string \<Rightarrow> string" where
  "js_replace [] pat rep = (if pat = [] then rep else [])"
| "js_replace (c # cs) pat rep =
     (if prefix pat (c # cs) then rep @ drop (length pat) (c # cs)
      else c # js_replace cs pat rep)"

section \<open>Requests, responses and the stores\<close>

text \<open>
  The inbound request: header names are lower-cased by Node; a query value is a
  string, or an array or object built by the query parser; \<open>body = None\<close> is an
  undefined \<^verbatim>\<open>req.body\<close>.
\<close>

record request =
  headers :: "string \<rightharpoonup> string"
  body :: "json option"
  query :: "string \<rightharpoonup> json"
  req_method :: string
  url :: string
  ip :: "string option"
  remoteAddress :: "string option"

text \<open>
  Token metadata. Timestamps are the clock readings (milliseconds) from which the
  program formats its ISO strings. The counter is a natural number: a JavaScript number
  counts exactly up to \<open>2^53\<close>, which no process reaches.
\<close>

record token_data =
  name :: json
  created :: nat
  lastUsed :: "nat option"
  usageCount :: nat

type_synonym token_store = "string \<rightharpoonup> token_data"

record webhook =
  wh_id :: string
  wh_timestamp :: nat
  wh_headers :: "string \<rightharpoonup> string"
  wh_body :: "json option"
  wh_query :: "string \<rightharpoonup> json"
  wh_method :: string
  wh_url :: string
  wh_ip :: "string option"

text \<open>What cheerio reads off an HTML page (lines 99--103 of server.js).\<close>

record html_fields =
  h_title :: string
  h_description :: string
  h_text :: string
  h_links :: "string list"
  h_images :: "string list"

text \<open>
  The extraction result: the object's \<^verbatim>\<open>type\<close> field is the constructor; every
  variant carries the URL and the timestamp last.
\<close>

datatype extracted =
    Json json json nat
  | Html html_fields json nat
  | Text json json nat
  | Other string json json nat
  | Error string json nat

datatype kind = KJson | KHtml | KText | KOther | KError

fun kind_of :: "extracted \<Rightarrow> kind" where
  "kind_of (Json d u t) = KJson"
| "kind_of (Html h u t) = KHtml"
| "kind_of (Text c u t) = KText"
| "kind_of (Other ct c u t) = KOther"
| "kind_of (Error m u t) = KError"

fun url_of :: "extracted \<Rightarrow> json" where
  "url_of (Json d u t) = u"
| "url_of (Html h u t) = u"
| "url_of (Text c u t) = u"
| "url_of (Other ct c u t) = u"
| "url_of (Error m u t) = u"

datatype payload =
    NoPayload
  | Hint string
  | ErrorDetail string
  | Accepted string nat nat "extracted list option"
  | Single extracted
  | Results "extracted list"
  | Created string json

record response =
  status :: nat
  success :: bool
  message :: string
  payload :: payload

record server =
  webhookData :: "webhook list"
  extractedData :: "extracted list"
  webhookTokens :: token_store

section \<open>The world outside the process\<close>

text \<open>
  The clock, the network, the random generator, the HTML parser and the JavaScript
  engine are not code of the program: they are oracles over an abstract world \<open>'w\<close>.
  \<open>axios_get\<close> answers a GET with \<open>Inl\<close> the message of the error axios rejects with, or
  \<open>Inr\<close> the response; \<open>math_random\<close> is the text
  \<^verbatim>\<open>Math.random().toString(36).substring(2, 15)\<close>; \<open>cheerio\<close> answers \<open>Inl\<close> the message
  of an exception thrown while the page is read; \<open>max_arguments\<close> is the largest number
  of arguments the engine passes in one call, a call with more throws a RangeError.
  \<open>outbound\<close> is a trace of the GET requests sent, oldest first.
\<close>

text \<open>
  A response as it arrives: \<open>raw\<close> is the text of the body, \<open>parsed\<close> the value of
  \<^verbatim>\<open>JSON.parse\<close> on that text, \<open>None\<close> when it throws.
\<close>

record http_response =
  resp_headers :: "string \<rightharpoonup> string"
  raw :: string
  parsed :: "json option"

text \<open>
  \<^verbatim>\<open>response.data\<close>: axios, with the default settings of line 78, hands the body over
  as the value it parses to as JSON, whatever the content type, and as the text itself
  when it does not parse.
\<close>

definition data :: "http_response \<Rightarrow> json" where
  "data r = (case parsed r of None \<Rightarrow> JStr (raw r) | Some v \<Rightarrow> v)"

record 'w env =
  date_now :: "'w \<Rightarrow> nat \<times> 'w"
  axios_get :: "'w \<Rightarrow> json \<Rightarrow> (string \<times> string) list \<Rightarrow> (string + http_response) \<times> 'w"
  math_random :: "'w \<Rightarrow> string \<times> 'w"
  cheerio :: "json \<Rightarrow> string + html_fields"
  max_arguments :: nat

record 'w io =
  world :: 'w
  outbound :: "(json \<times> (string \<times> string) list) list"

definition now :: "'w env \<Rightarrow> 'w io \<Rightarrow> nat \<times> 'w io" where
  "now e s = (case date_now e (world s) of (t, w) \<Rightarrow> (t, s\<lparr>world := w\<rparr>))"

definition random :: "'w env \<Rightarrow> 'w io \<Rightarrow> string \<times> 'w io" where
  "random e s = (case math_random e (world s) of (r, w) \<Rightarrow> (r, s\<lparr>world := w\<rparr>))"

definition get :: "'w env \<Rightarrow> json \<Rightarrow> (string \<times> string) list \<Rightarrow> 'w io
    \<Rightarrow> (string + http_response) \<times> 'w io" where
  "get e u hs s =
     (case axios_get e (world s) u hs of
        (r, w) \<Rightarrow> (r, s\<lparr>world := w, outbound := outbound s @ [(u, hs)]\<rparr>))"

section \<open>Token store and authorization gate\<close>

definition defaultToken :: string where
  "defaultToken = ''webhook-secret-2024''"

text \<open>The token store at process start, created at clock reading \<open>t0\<close>.\<close>

definition initial_tokens :: "nat \<Rightarrow> token_store" where
  "initial_tokens t0 =
     Map.empty(defaultToken \<mapsto>
       \<lparr>name = JStr ''Default Token'', created = t0, lastUsed = None, usageCount = 0\<rparr>)"

text \<open>Line 34: the candidate credential.\<close>

definition candidate_token :: "request \<Rightarrow> json option" where
  "candidate_token req =
     js_or (js_or (map_option JStr (headers req ''x-webhook-token''))
                  (map_option (\<lambda>a. JStr (js_replace a ''Bearer '' '''')) (headers req ''authorization'')))
           (query req ''token'')"

definition token_required :: response where
  "token_required =
     \<lparr>status = 401, success = False, message = ''Webhook token required'',
      payload = Hint ''Add X-Webhook-Token header or ?token=your-token query parameter''\<rparr>"

definition token_invalid :: response where
  "token_invalid =
     \<lparr>status = 401, success = False, message = ''Invalid webhook token'',
      payload = Hint ''Use a valid token or create a new one''\<rparr>"

text \<open>
  \<open>validateWebhookToken\<close>: \<open>Inl\<close> is the response that ends the request, \<open>Inr\<close> the
  token put on the request before \<^verbatim>\<open>next()\<close>. The keys of the store are strings, so
  \<^verbatim>\<open>has\<close> is false for a candidate that is an array or an object.
\<close>

definition validateWebhookToken ::
    "'w env \<Rightarrow> request \<Rightarrow> server \<Rightarrow> 'w io \<Rightarrow> (response + string) \<times> server \<times> 'w io" where
  "validateWebhookToken e req srv s =
     (let token = candidate_token req in
      if \<not> truthy_opt token then (Inl token_required, srv, s)
      else
        (case token of
           Some (JStr t) \<Rightarrow>
             (case webhookTokens srv t of
                None \<Rightarrow> (Inl token_invalid, srv, s)
              | Some tokenData \<Rightarrow>
                  (case now e s of
                     (n, s') \<Rightarrow>
                       (Inr t,
                        srv\<lparr>webhookTokens := (webhookTokens srv)
                               (t \<mapsto> tokenData\<lparr>lastUsed := Some n,
                                                 usageCount := usageCount tokenData + 1\<rparr>)\<rparr>,
                        s')))
         | _ \<Rightarrow> (Inl token_invalid, srv, s)))"

section \<open>Decimal text of a number\<close>

definition digit :: "nat \<Rightarrow> char" where
  "digit d = char_of (48 + d)"

text \<open>
  \<^verbatim>\<open>n.toString()\<close> and \<^verbatim>\<open>'' + n\<close> for a natural number below \<open>10^21\<close>, as every
  clock reading and every array length is.
\<close>

fun toString :: "nat \<Rightarrow> string" where
  "toString n = (if n < 10 then [digit n] else toString (n div 10) @ [digit (n mod 10)])"

declare toString.simps [simp del]

definition int_toString :: "int \<Rightarrow> string" where
  "int_toString i = (if i < 0 then CHR ''-'' # toString (nat (- i)) else toString (nat i))"

text \<open>The number a decimal text spells, to compare ids as numbers.\<close>

definition digit_value :: "char \<Rightarrow> nat" where
  "digit_value c = of_char c - 48"

definition id_value :: "string \<Rightarrow> nat" where
  "id_value s = foldl (\<lambda>a c. 10 * a + digit_value c) 0 s"

section \<open>URL discovery\<close>

definition hex_digit :: "nat \<Rightarrow> char" where
  "hex_digit d = (if d < 10 then char_of (48 + d) else char_of (87 + d))"

text \<open>
  \<^verbatim>\<open>JSON.stringify\<close> of a string: the quote and the backslash are escaped, the
  control characters are written as their short escapes or as \<^verbatim>\<open>\u00XX\<close>.
\<close>

definition escape_char :: "char \<Rightarrow> string" where
  "escape_char c =
     (if c = CHR 0x22 then [CHR 0x5C, CHR 0x22]
      else if c = CHR 0x5C then [CHR 0x5C, CHR 0x5C]
      else if c = CHR 0x08 then [CHR 0x5C, CHR ''b'']
      else if c = CHR 0x0C then [CHR 0x5C, CHR ''f'']
      else if c = CHR 0x0A then [CHR 0x5C, CHR ''n'']
      else if c = CHR 0x0D then [CHR 0x5C, CHR ''r'']
      else if c = CHR 0x09 then [CHR 0x5C, CHR ''t'']
      else if (of_char c :: nat) < 32 then
        [CHR 0x5C, CHR ''u'', CHR ''0'', CHR ''0'',
         hex_digit (of_char c div 16), hex_digit (of_char c mod 16)]
      else [c])"

definition quote :: "string \<Rightarrow> string" where
  "quote s = [CHR 0x22] @ concat (map escape_char s) @ [CHR 0x22]"

fun join :: "string \<Rightarrow> string list \<Rightarrow> string" where
  "join sep [] = []"
| "join sep [x] = x"
| "join sep (x # y # ys) = x @ sep @ join sep (y # ys)"

text \<open>\<^verbatim>\<open>JSON.stringify(v)\<close> without indentation.\<close>

fun stringify :: "json \<Rightarrow> string"
  and stringify_elems :: "json list \<Rightarrow> string list"
  and stringify_props :: "(string \<times> json) list \<Rightarrow> string list" where
  "stringify JNull = ''null''"
| "stringify (JBool b) = (if b then ''true'' else ''false'')"
| "stringify (JNum n) = int_toString n"
| "stringify (JStr s) = quote s"
| "stringify (JArr xs) = ''['' @ join '','' (stringify_elems xs) @ '']''"
| "stringify (JObj kvs) = ''{'' @ join '','' (stringify_props kvs) @ ''}''"
| "stringify_elems [] = []"
| "stringify_elems (x # xs) = stringify x # stringify_elems xs"
| "stringify_props [] = []"
| "stringify_props ((k, v) # kvs) = (quote k @ '':'' @ stringify v) # stringify_props kvs"

text \<open>
  \<^verbatim>\<open>\s\<close> among the code units up to 255, which are the characters of this model: tab,
  line feed, vertical tab, form feed, carriage return, space and no-break space. The
  whitespace characters above 255 that the class also matches are not characters here.
\<close>

definition is_space :: "char \<Rightarrow> bool" where
  "is_space c = (c \<in> {CHR 0x09, CHR 0x0A, CHR 0x0B, CHR 0x0C, CHR 0x0D, CHR 0x20, CHR 0xA0})"

text \<open>The character class \<^verbatim>\<open>[^\s"<>]\<close>.\<close>

definition url_char :: "char \<Rightarrow> bool" where
  "url_char c = (\<not> is_space c \<and> c \<noteq> CHR 0x22 \<and> c \<noteq> CHR ''<'' \<and> c \<noteq> CHR ''>'')"

text \<open>
  The length of the match of \<^verbatim>\<open>/https?:\/\/[^\s"<>]+/\<close> that starts at the head of
  the text, if there is one: the scheme, then the longest run of class characters, which
  must not be empty.
\<close>

definition scheme_length :: "string \<Rightarrow> nat option" where
  "scheme_length s =
     (if prefix ''https://'' s then Some 8
      else if prefix ''http://'' s then Some 7
      else None)"

definition match_at :: "string \<Rightarrow> nat option" where
  "match_at s =
     (case scheme_length s of
        None \<Rightarrow> None
      | Some k \<Rightarrow>
          (let n = length (takeWhile url_char (drop k s))
           in if n = 0 then None else Some (k + n)))"

text \<open>
  \<^verbatim>\<open>bodyStr.match(urlRegex)\<close> with the \<^verbatim>\<open>g\<close> flag: the matches from left to right,
  the search resuming where the last match ended (\<open>[]\<close> for \<^verbatim>\<open>null\<close>).
\<close>

function match_all :: "string \<Rightarrow> string list" where
  "match_all [] = []"
| "match_all (c # cs) =
     (case match_at (c # cs) of
        None \<Rightarrow> match_all cs
      | Some n \<Rightarrow> take n (c # cs) # match_all (drop n (c # cs)))"
  by pat_completeness auto
termination
  by (relation "measure length")
     (auto simp: match_at_def scheme_length_def Let_def split: if_splits option.splits)

text \<open>\<^verbatim>\<open>typeof v === 'object'\<close>.\<close>

fun typeof_object :: "json \<Rightarrow> bool" where
  "typeof_object JNull = True"
| "typeof_object (JArr xs) = True"
| "typeof_object (JObj kvs) = True"
| "typeof_object v = False"

text \<open>
  Lines 174--189 (and 286--301): the matches in the body (\<open>[]\<close> for \<^verbatim>\<open>null\<close> and for
  a body that is not scanned) and the URLs to extract.
  \<^verbatim>\<open>urlsToExtract.push(...foundUrls)\<close> passes every match as an argument of one call:
  \<open>Inl\<close> is the message of the RangeError that the engine throws when there are more
  matches than it passes.
\<close>

definition foundUrls :: "request \<Rightarrow> string list" where
  "foundUrls req =
     (case body req of
        None \<Rightarrow> []
      | Some b \<Rightarrow> if truthy b \<and> typeof_object b then match_all (stringify b) else [])"

definition urlsToExtract :: "'w env \<Rightarrow> request \<Rightarrow> string + string list" where
  "urlsToExtract e req =
     (if max_arguments e < length (foundUrls req) then Inl ''Maximum call stack size exceeded''
      else Inr (foundUrls req @
                (case headers req ''referer'' of
                   None \<Rightarrow> []
                 | Some r \<Rightarrow> if r \<noteq> [] then [r] else [])))"




section \<open>Content extractor\<close>

definition user_agent :: string where
  "user_agent = ''Mozilla/5.0 (Windows NT 10.0; Win64; x64) AppleWebKit/537.36 (KHTML, like Gecko) Chrome/91.0.4472.124 Safari/537.36''"

text \<open>Lines 67--76: the headers of the outbound GET; \<open>None\<close> is the default \<^verbatim>\<open>null\<close>.\<close>

definition request_headers :: "string option \<Rightarrow> (string \<times> string) list" where
  "request_headers token =
     [(''User-Agent'', user_agent)] @
     (case token of
        None \<Rightarrow> []
      | Some t \<Rightarrow>
          if t \<noteq> [] then [(''Authorization'', ''Bearer '' @ t), (''X-API-Key'', t)]
          else [])"

text \<open>Line 83: \<^verbatim>\<open>response.headers['content-type'] || ''\<close>.\<close>

definition content_type :: "http_response \<Rightarrow> string" where
  "content_type r = (case resp_headers r ''content-type'' of None \<Rightarrow> [] | Some c \<Rightarrow> c)"

text \<open>
  Lines 83--126, the part of the \<^verbatim>\<open>try\<close> block after the response has arrived:
  \<open>Inl\<close> is the message of an exception thrown there.
\<close>

definition classify :: "'w env \<Rightarrow> json \<Rightarrow> http_response \<Rightarrow> 'w io \<Rightarrow> (string + extracted) \<times> 'w io" where
  "classify e u r s =
     (let contentType = content_type r in
      if js_includes contentType ''application/json'' then
        (case now e s of (t, s') \<Rightarrow> (Inr (Json (data r) u t), s'))
      else if js_includes contentType ''text/html'' then
        (case cheerio e (data r) of
           Inl m \<Rightarrow> (Inl m, s)
         | Inr h \<Rightarrow> (case now e s of (t, s') \<Rightarrow> (Inr (Html h u t), s')))
      else if js_includes contentType ''text/plain'' \<or> js_includes contentType ''text/markdown'' then
        (case now e s of (t, s') \<Rightarrow> (Inr (Text (data r) u t), s'))
      else
        (case now e s of (t, s') \<Rightarrow> (Inr (Other contentType (data r) u t), s')))"

text \<open>
  The text of a value inside a template literal (\<^verbatim>\<open>`... ${url}`\<close>), \<open>None\<close> when the
  conversion throws a TypeError: an object converts through \<^verbatim>\<open>toString\<close>, which an
  own property of that name hides, and no JSON value is a function; an array joins the
  texts of its elements, the empty text for \<^verbatim>\<open>null\<close>.
\<close>

fun js_string :: "json \<Rightarrow> string option"
  and js_strings :: "json list \<Rightarrow> string list option" where
  "js_string JNull = Some ''null''"
| "js_string (JBool b) = Some (if b then ''true'' else ''false'')"
| "js_string (JNum n) = Some (int_toString n)"
| "js_string (JStr t) = Some t"
| "js_string (JArr xs) = map_option (join '','') (js_strings xs)"
| "js_string (JObj kvs) =
     (if ''toString'' \<in> fst ` set kvs then None else Some ''[object Object]'')"
| "js_strings [] = Some []"
| "js_strings (x # xs) =
     (case (case x of JNull \<Rightarrow> Some [] | _ \<Rightarrow> js_string x) of
        None \<Rightarrow> None
      | Some t \<Rightarrow> map_option ((#) t) (js_strings xs))"

definition cannot_convert :: string where
  "cannot_convert = ''Cannot convert object to primitive value''"

text \<open>
  The \<^verbatim>\<open>try\<close> block of \<open>extractDataFromUrl\<close> (lines 65--126): it prints the URL in a
  template literal first.
\<close>

definition try_extract :: "'w env \<Rightarrow> json \<Rightarrow> string option \<Rightarrow> 'w io \<Rightarrow> (string + extracted) \<times> 'w io" where
  "try_extract e u token s =
     (case js_string u of
        None \<Rightarrow> (Inl cannot_convert, s)
      | Some shown \<Rightarrow>
          (case get e u (request_headers token) s of
             (Inl m, s1) \<Rightarrow> (Inl m, s1)
           | (Inr r, s1) \<Rightarrow> classify e u r s1))"

text \<open>
  \<open>extractDataFromUrl\<close>: the \<^verbatim>\<open>try\<close> block and its \<^verbatim>\<open>catch\<close> (lines 127--135). The
  \<^verbatim>\<open>catch\<close> prints the URL in a template literal too (line 128), outside any
  \<^verbatim>\<open>try\<close>: \<open>Inl\<close> is the message of the exception that then leaves the function.
\<close>

definition extractDataFromUrl :: "'w env \<Rightarrow> json \<Rightarrow> string option \<Rightarrow> 'w io
    \<Rightarrow> (string + extracted) \<times> 'w io" where
  "extractDataFromUrl e u token s =
     (case try_extract e u token s of
        (Inr x, s1) \<Rightarrow> (Inr x, s1)
      | (Inl m, s1) \<Rightarrow>
          (case js_string u of
             None \<Rightarrow> (Inl cannot_convert, s1)
           | Some shown \<Rightarrow> (case now e s1 of (t, s2) \<Rightarrow> (Inr (Error m u t), s2))))"

text \<open>
  What the extractor returns for the URLs of a list in turn, each call in the world the
  call before it has left.
\<close>

fun extract_all :: "'w env \<Rightarrow> string option \<Rightarrow> json list \<Rightarrow> 'w io
    \<Rightarrow> (string + extracted) list \<times> 'w io" where
  "extract_all e token [] s = ([], s)"
| "extract_all e token (u # us) s =
     (case extractDataFromUrl e u token s of
        (r, s1) \<Rightarrow> (case extract_all e token us s1 of (rs, s2) \<Rightarrow> (r # rs, s2)))"

text \<open>
  The block that prints a result to the terminal (lines 204--232, 316--344, 452--480,
  528--556): \<open>Some m\<close> when it throws a TypeError of message \<open>m\<close>. A \<^verbatim>\<open>text\<close> result
  is printed with \<^verbatim>\<open>extractedContent.content.substring(0, 1000)\<close>, which exists
  for a string only; axios hands over a body that parses as JSON as the parsed value.
\<close>

fun display :: "extracted \<Rightarrow> string option" where
  "display (Text (JStr c) u t) = None"
| "display (Text JNull u t) = Some ''Cannot read properties of null (reading 'substring')''"
| "display (Text c u t) = Some ''extractedContent.content.substring is not a function''"
| "display x = None"

section \<open>Ingestion handlers\<close>

definition internal_error :: "string \<Rightarrow> response" where
  "internal_error m =
     \<lparr>status = 500, success = False, message = ''Internal server error'', payload = ErrorDetail m\<rparr>"

text \<open>
  The loop of lines 196--237 (and 308--349). The loop's own \<^verbatim>\<open>catch\<close> only prints, so
  an exception of the extractor skips both pushes, and an exception of the printing
  block, which comes after both pushes, changes nothing.
\<close>

fun extract_each :: "'w env \<Rightarrow> string option \<Rightarrow> string list \<Rightarrow> extracted list \<Rightarrow> server \<Rightarrow> 'w io
    \<Rightarrow> extracted list \<times> server \<times> 'w io" where
  "extract_each e token [] extractedResults srv s = (extractedResults, srv, s)"
| "extract_each e token (u # us) extractedResults srv s =
     (case extractDataFromUrl e (JStr u) token s of
        (Inl m, s') \<Rightarrow> extract_each e token us extractedResults srv s'
      | (Inr extractedContent, s') \<Rightarrow>
          extract_each e token us (extractedResults @ [extractedContent])
            (srv\<lparr>extractedData := extractedData srv @ [extractedContent]\<rparr>) s')"

text \<open>The record built at lines 151--160 (and 263--272) from the request and two clock readings.\<close>

definition webhookPayload :: "request \<Rightarrow> nat \<Rightarrow> nat \<Rightarrow> webhook" where
  "webhookPayload req t1 t2 =
     \<lparr>wh_id = toString t1, wh_timestamp = t2, wh_headers = headers req,
      wh_body = body req, wh_query = query req, wh_method = req_method req,
      wh_url = url req,
      wh_ip = (case ip req of
                 None \<Rightarrow> remoteAddress req
               | Some a \<Rightarrow> if a \<noteq> [] then Some a else remoteAddress req)\<rparr>"

text \<open>
  The body of both ingestion handlers (lines 150--257 and 262--369), which differ in the
  token handed to the extractor and in the message only. The record is stored first; an
  exception of the discovery block reaches the handler's outer \<^verbatim>\<open>catch\<close>, which
  answers 500.
\<close>

definition ingest :: "'w env \<Rightarrow> string \<Rightarrow> string option \<Rightarrow> request \<Rightarrow> server \<Rightarrow> 'w io
    \<Rightarrow> response \<times> server \<times> 'w io" where
  "ingest e msg token req srv s =
     (case now e s of
        (t1, s1) \<Rightarrow>
          (case now e s1 of
             (t2, s2) \<Rightarrow>
               (let srv1 = srv\<lparr>webhookData := webhookData srv @ [webhookPayload req t1 t2]\<rparr>
                in (case urlsToExtract e req of
                      Inl m \<Rightarrow> (internal_error m, srv1, s2)
                    | Inr urls \<Rightarrow>
                        (case extract_each e token urls [] srv1 s2 of
                           (extractedResults, srv2, s3) \<Rightarrow>
                             (\<lparr>status = 200, success = True, message = msg,
                               payload = Accepted (toString t1) t2 (length urls)
                                           (if extractedResults \<noteq> [] then Some extractedResults
                                            else None)\<rparr>,
                              srv2, s3))))))"

text \<open>\<^verbatim>\<open>POST /webhook\<close>: the gate, then the handler with the validated token.\<close>

definition post_webhook :: "'w env \<Rightarrow> request \<Rightarrow> server \<Rightarrow> 'w io \<Rightarrow> response \<times> server \<times> 'w io" where
  "post_webhook e req srv s =
     (case validateWebhookToken e req srv s of
        (Inl r, srv', s') \<Rightarrow> (r, srv', s')
      | (Inr token, srv', s') \<Rightarrow> ingest e ''Webhook received successfully'' (Some token) req srv' s')"

text \<open>\<^verbatim>\<open>POST /webhook-public\<close>: no gate, and \<open>extractDataFromUrl(url)\<close> without a token.\<close>

definition post_webhook_public :: "'w env \<Rightarrow> request \<Rightarrow> server \<Rightarrow> 'w io \<Rightarrow> response \<times> server \<times> 'w io" where
  "post_webhook_public e req srv s = ingest e ''Public webhook received successfully'' None req srv s"

section \<open>Batch extraction\<close>

text \<open>
  \<^verbatim>\<open>const { k } = v\<close> for the property names the handlers read (\<open>name\<close>, \<open>urls\<close>),
  which only an object can have: \<open>Inl\<close> is the TypeError for \<^verbatim>\<open>undefined\<close> and \<^verbatim>\<open>null\<close>.
\<close>

fun destructure :: "json option \<Rightarrow> string \<Rightarrow> string + json option" where
  "destructure None k =
     Inl (''Cannot destructure property '' @ [CHR 0x27] @ k @ [CHR 0x27] @
          '' of 'req.body' as it is undefined.'')"
| "destructure (Some JNull) k =
     Inl (''Cannot destructure property '' @ [CHR 0x27] @ k @ [CHR 0x27] @
          '' of 'req.body' as it is null.'')"
| "destructure (Some (JObj kvs)) k = Inr (map_of kvs k)"
| "destructure (Some v) k = Inr None"

text \<open>
  The \<^verbatim>\<open>catch\<close> of the loop of lines 522--573 (lines 558--572): it pushes an error
  result of its own and prints the URL in a template literal, where an exception leaves
  the loop (\<open>Inl\<close>).
\<close>

definition batch_catch :: "'w env \<Rightarrow> json \<Rightarrow> string \<Rightarrow> extracted list \<Rightarrow> server \<Rightarrow> 'w io
    \<Rightarrow> (string + extracted list) \<times> server \<times> 'w io" where
  "batch_catch e u m results srv s =
     (case now e s of
        (t, s') \<Rightarrow>
          (case js_string u of
             None \<Rightarrow> (Inl cannot_convert, srv, s')
           | Some shown \<Rightarrow> (Inr (results @ [Error m u t]), srv, s')))"

text \<open>
  One turn of the loop (lines 523--572): the \<^verbatim>\<open>try\<close> block pushes the result, then
  prints the URL and the result, which can throw; what is thrown goes to the \<^verbatim>\<open>catch\<close>.
\<close>

definition batch_step :: "'w env \<Rightarrow> string option \<Rightarrow> json \<Rightarrow> extracted list \<Rightarrow> server \<Rightarrow> 'w io
    \<Rightarrow> (string + extracted list) \<times> server \<times> 'w io" where
  "batch_step e token u results srv s =
     (case extractDataFromUrl e u token s of
        (Inl m, s1) \<Rightarrow> batch_catch e u m results srv s1
      | (Inr extractedContent, s1) \<Rightarrow>
          (let results1 = results @ [extractedContent];
               srv1 = srv\<lparr>extractedData := extractedData srv @ [extractedContent]\<rparr>
           in case js_string u of
                None \<Rightarrow> batch_catch e u cannot_convert results1 srv1 s1
              | Some shown \<Rightarrow>
                  (case display extractedContent of
                     None \<Rightarrow> (Inr results1, srv1, s1)
                   | Some m \<Rightarrow> batch_catch e u m results1 srv1 s1)))"

fun batch_each :: "'w env \<Rightarrow> string option \<Rightarrow> json list \<Rightarrow> extracted list \<Rightarrow> server \<Rightarrow> 'w io
    \<Rightarrow> (string + extracted list) \<times> server \<times> 'w io" where
  "batch_each e token [] results srv s = (Inr results, srv, s)"
| "batch_each e token (u # us) results srv s =
     (case batch_step e token u results srv s of
        (Inl m, srv', s') \<Rightarrow> (Inl m, srv', s')
      | (Inr results', srv', s') \<Rightarrow> batch_each e token us results' srv' s')"

text \<open>The handler of \<^verbatim>\<open>POST /extract-batch\<close> (lines 509--588), behind the gate.\<close>

definition extract_batch :: "'w env \<Rightarrow> string \<Rightarrow> request \<Rightarrow> server \<Rightarrow> 'w io \<Rightarrow> response \<times> server \<times> 'w io" where
  "extract_batch e token req srv s =
     (case destructure (body req) ''urls'' of
        Inl m \<Rightarrow> (internal_error m, srv, s)
      | Inr urls \<Rightarrow>
          (case urls of
             Some (JArr us) \<Rightarrow>
               (case batch_each e (Some token) us [] srv s of
                  (Inl m, srv', s') \<Rightarrow> (internal_error m, srv', s')
                | (Inr results, srv', s') \<Rightarrow>
                    (\<lparr>status = 200, success = True,
                      message = ''Extracted data from '' @ toString (length us) @ '' URLs'',
                      payload = Results results\<rparr>, srv', s'))
           | _ \<Rightarrow>
               (\<lparr>status = 400, success = False, message = ''URLs array is required'',
                 payload = NoPayload\<rparr>, srv, s)))"

definition post_extract_batch :: "'w env \<Rightarrow> request \<Rightarrow> server \<Rightarrow> 'w io \<Rightarrow> response \<times> server \<times> 'w io" where
  "post_extract_batch e req srv s =
     (case validateWebhookToken e req srv s of
        (Inl r, srv', s') \<Rightarrow> (r, srv', s')
      | (Inr token, srv', s') \<Rightarrow> extract_batch e token req srv' s')"

section \<open>Token management\<close>

text \<open>Line 401: the new token, from the clock reading and the random text.\<close>

definition newToken :: "nat \<Rightarrow> string \<Rightarrow> string" where
  "newToken t r = ''webhook-'' @ toString t @ ''-'' @ r"

text \<open>
  \<^verbatim>\<open>POST /tokens\<close> (lines 399--416). The handler has no \<^verbatim>\<open>try\<close>: the TypeError of
  line 400 reaches the error middleware (lines 651--658), which hides the message when
  \<open>production\<close> holds.
\<close>

definition post_tokens :: "'w env \<Rightarrow> bool \<Rightarrow> request \<Rightarrow> server \<Rightarrow> 'w io \<Rightarrow> response \<times> server \<times> 'w io" where
  "post_tokens e production req srv s =
     (case destructure (body req) ''name'' of
        Inl m \<Rightarrow> (internal_error (if production then ''Something went wrong'' else m), srv, s)
      | Inr nm \<Rightarrow>
          (case now e s of
             (t, s1) \<Rightarrow>
               (case random e s1 of
                  (r, s1') \<Rightarrow>
                    (case now e s1' of
                       (c, s2) \<Rightarrow>
                         (let shown = (case nm of
                                         None \<Rightarrow> JStr ''Generated Token''
                                       | Some v \<Rightarrow> if truthy v then v else JStr ''Generated Token'')
                          in (\<lparr>status = 200, success = True,
                                message = ''Token created successfully'',
                                payload = Created (newToken t r) shown\<rparr>,
                              srv\<lparr>webhookTokens := (webhookTokens srv)
                                     (newToken t r \<mapsto>
                                        \<lparr>name = shown, created = c, lastUsed = None, usageCount = 0\<rparr>)\<rparr>,
                              s2))))))"

text \<open>\<^verbatim>\<open>DELETE /tokens/:token\<close> (lines 419--434).\<close>

definition delete_token :: "string \<Rightarrow> server \<Rightarrow> response \<times> server" where
  "delete_token token srv =
     (if token \<notin> dom (webhookTokens srv) then
        (\<lparr>status = 404, success = False, message = ''Token not found'', payload = NoPayload\<rparr>, srv)
      else
        (\<lparr>status = 200, success = True, message = ''Token deleted successfully'', payload = NoPayload\<rparr>,
         srv\<lparr>webhookTokens := (webhookTokens srv)(token := None)\<rparr>))"

text \<open>The stores when the process starts at clock reading \<open>t0\<close> (lines 17--30).\<close>

definition initial_server :: "nat \<Rightarrow> server" where
  "initial_server t0 = \<lparr>webhookData = [], extractedData = [], webhookTokens = initial_tokens t0\<rparr>"

section \<open>States the process can reach\<close>

text \<open>
  The stores the process can be in: those of the start, and those a route leaves behind.
  The rule for the gate alone stands for \<^verbatim>\<open>POST /extract\<close>, whose handler does not
  touch the token store.
\<close>

inductive reachable :: "'w env \<Rightarrow> server \<Rightarrow> bool" for e :: "'w env" where
  start: "reachable e (initial_server t0)"
| gate: "reachable e srv \<Longrightarrow> validateWebhookToken e req srv s = (r, srv', s') \<Longrightarrow> reachable e srv'"
| webhook: "reachable e srv \<Longrightarrow> post_webhook e req srv s = (resp, srv', s') \<Longrightarrow> reachable e srv'"
| webhook_public:
    "reachable e srv \<Longrightarrow> post_webhook_public e req srv s = (resp, srv', s') \<Longrightarrow> reachable e srv'"
| batch: "reachable e srv \<Longrightarrow> post_extract_batch e req srv s = (resp, srv', s') \<Longrightarrow> reachable e srv'"
| create:
    "reachable e srv \<Longrightarrow> post_tokens e production req srv s = (resp, srv', s') \<Longrightarrow> reachable e srv'"
| delete: "reachable e srv \<Longrightarrow> delete_token token srv = (resp, srv') \<Longrightarrow> reachable e srv'"

text \<open>The characters \<^verbatim>\<open>0\<close> to \<^verbatim>\<open>9\<close>.\<close>

definition is_digit :: "char \<Rightarrow> bool" where
  "is_digit c = (48 \<le> (of_char c :: nat) \<and> (of_char c :: nat) \<le> 57)"

section \<open>Example worlds and requests\<close>

text \<open>
  A world that counts its events: the clock shows the count, every GET is refused but the
  one to \<^verbatim>\<open>https://x.test/2\<close>, which is answered with a JSON body.
\<close>

definition example_env :: "nat env" where
  "example_env =
     \<lparr>date_now = (\<lambda>w. (w, Suc w)),
      axios_get = (\<lambda>w u hs.
        (if u = JStr ''https://x.test/2''
         then Inr \<lparr>resp_headers = [''content-type'' \<mapsto> ''application/json''],
                   raw = ''{'' @ [CHR 0x22] @ ''k'' @ [CHR 0x22] @ '':1}'',
                   parsed = Some (JObj [(''k'', JNum 1)])\<rparr>
         else Inl ''connect ECONNREFUSED'', Suc w)),
      math_random = (\<lambda>w. (''k3j9x0'', Suc w)),
      cheerio = (\<lambda>d. Inl ''not a page''),
      max_arguments = 100000\<rparr>"


text \<open>A world whose clock stands still and whose random generator repeats itself.\<close>

definition frozen_env :: "nat env" where
  "frozen_env =
     \<lparr>date_now = (\<lambda>w. (1024, w)),
      axios_get = (\<lambda>w u hs. (Inl ''connect ECONNREFUSED'', w)),
      math_random = (\<lambda>w. (''k3j9x0'', w)),
      cheerio = (\<lambda>d. Inl ''not a page''),
      max_arguments = 100000\<rparr>"

text \<open>
  The page of the specification's example, and what cheerio reads off it according to
  the specification.
\<close>

definition example_page :: string where
  "example_page =
     ''<title>T</title><meta name='' @ [CHR 0x22] @ ''description'' @ [CHR 0x22] @
     '' content='' @ [CHR 0x22] @ ''D'' @ [CHR 0x22] @ ''><body><a href='' @ [CHR 0x22] @
     ''/a'' @ [CHR 0x22] @ ''>x</a><img src='' @ [CHR 0x22] @ ''/i.png'' @ [CHR 0x22] @
     ''></body>''"

definition example_fields :: html_fields where
  "example_fields =
     \<lparr>h_title = ''T'', h_description = ''D'', h_text = ''x'', h_links = [''/a''],
      h_images = [''/i.png'']\<rparr>"

text \<open>
  A world where every GET is answered with the declared content type \<open>ct\<close> (no such
  header for \<open>None\<close>) and a body that axios hands over as \<open>d\<close>: the text itself for a
  text, the serialization for any other value. Its cheerio reads the example page and
  throws on everything else.
\<close>

definition serving :: "string option \<Rightarrow> json \<Rightarrow> nat env" where
  "serving ct d =
     \<lparr>date_now = (\<lambda>w. (w, Suc w)),
      axios_get = (\<lambda>w u hs.
        (Inr \<lparr>resp_headers = (case ct of None \<Rightarrow> Map.empty | Some c \<Rightarrow> [''content-type'' \<mapsto> c]),
               raw = (case d of JStr t \<Rightarrow> t | _ \<Rightarrow> stringify d),
               parsed = (case d of JStr t \<Rightarrow> None | _ \<Rightarrow> Some d)\<rparr>, Suc w)),
      math_random = (\<lambda>w. (''k3j9x0'', Suc w)),
      cheerio = (\<lambda>p. if p = JStr example_page then Inr example_fields
                      else Inl ''Cannot read properties of null (reading 'type')''),
      max_arguments = 100000\<rparr>"

definition io0 :: "nat io" where
  "io0 = \<lparr>world = 0, outbound = []\<rparr>"

definition example_request :: request where
  "example_request =
     \<lparr>headers = Map.empty, body = None, query = Map.empty, req_method = ''POST'',
      url = ''/webhook'', ip = Some ''127.0.0.1'', remoteAddress = Some ''127.0.0.1''\<rparr>"

section \<open>The authorization gate\<close>

lemma validateWebhookToken_Inr_iff:
  "validateWebhookToken e req srv s = (Inr t, srv', s') \<longleftrightarrow>
     candidate_token req = Some (JStr t) \<and> t \<noteq> [] \<and>
     (\<exists>d. webhookTokens srv t = Some d \<and>
        srv' = srv\<lparr>webhookTokens := (webhookTokens srv)
                 (t \<mapsto> d\<lparr>lastUsed := Some (fst (now e s)), usageCount := usageCount d + 1\<rparr>)\<rparr> \<and>
        s' = snd (now e s))"
  by (auto simp: validateWebhookToken_def Let_def split: option.splits json.splits prod.splits)

lemma validateWebhookToken_required:
  "\<not> truthy_opt (candidate_token req) \<Longrightarrow>
     validateWebhookToken e req srv s = (Inl token_required, srv, s)"
  by (simp add: validateWebhookToken_def Let_def)

lemma validateWebhookToken_invalid:
  "truthy_opt (candidate_token req) \<Longrightarrow>
   \<forall>t. candidate_token req = Some (JStr t) \<longrightarrow> t \<notin> dom (webhookTokens srv) \<Longrightarrow>
     validateWebhookToken e req srv s = (Inl token_invalid, srv, s)"
  by (auto simp: validateWebhookToken_def Let_def split: option.splits json.splits prod.splits)

lemma validateWebhookToken_Inl:
  "validateWebhookToken e req srv s = (Inl r, srv', s') \<Longrightarrow>
     srv' = srv \<and> s' = s \<and> (r = token_required \<or> r = token_invalid)"
  by (auto simp: validateWebhookToken_def Let_def split: option.splits json.splits prod.splits if_splits)

text \<open>
  C1. The gate lets a request through exactly when the candidate is a non-empty string
  that is a key of the token store. Then the entry of that token has its counter raised
  by one and its last use set to the clock reading, every other entry and both record
  stores are as before. A missing or empty candidate is answered with 401 "Webhook token
  required", any other candidate that is not a key with 401 "Invalid webhook token", and
  either way the stores and the world are unchanged.
\<close>

theorem gate_succeeds_iff_valid_token:
  "((\<exists>t srv' s'. validateWebhookToken e req srv s = (Inr t, srv', s')) \<longleftrightarrow>
      (\<exists>t. candidate_token req = Some (JStr t) \<and> t \<noteq> [] \<and> t \<in> dom (webhookTokens srv)))
   \<and> (\<forall>t srv' s'. validateWebhookToken e req srv s = (Inr t, srv', s') \<longrightarrow>
         candidate_token req = Some (JStr t) \<and>
         (\<exists>d d'. webhookTokens srv t = Some d \<and> webhookTokens srv' t = Some d' \<and>
            usageCount d' = usageCount d + 1 \<and> lastUsed d' = Some (fst (now e s)) \<and>
            name d' = name d \<and> created d' = created d) \<and>
         (\<forall>k. k \<noteq> t \<longrightarrow> webhookTokens srv' k = webhookTokens srv k) \<and>
         webhookData srv' = webhookData srv \<and> extractedData srv' = extractedData srv)
   \<and> (\<not> truthy_opt (candidate_token req) \<longrightarrow>
         validateWebhookToken e req srv s = (Inl token_required, srv, s))
   \<and> (truthy_opt (candidate_token req) \<and>
       (\<forall>t. candidate_token req = Some (JStr t) \<longrightarrow> t \<notin> dom (webhookTokens srv)) \<longrightarrow>
         validateWebhookToken e req srv s = (Inl token_invalid, srv, s))
   \<and> (\<forall>r srv' s'. validateWebhookToken e req srv s = (Inl r, srv', s') \<longrightarrow> srv' = srv \<and> s' = s)
   \<and> status token_required = 401 \<and> message token_required = ''Webhook token required''
   \<and> status token_invalid = 401 \<and> message token_invalid = ''Invalid webhook token''"
proof -
  have a: "(\<exists>t srv' s'. validateWebhookToken e req srv s = (Inr t, srv', s')) \<longleftrightarrow>
      (\<exists>t. candidate_token req = Some (JStr t) \<and> t \<noteq> [] \<and> t \<in> dom (webhookTokens srv))"
    unfolding validateWebhookToken_Inr_iff by auto
  have b: "\<forall>t srv' s'. validateWebhookToken e req srv s = (Inr t, srv', s') \<longrightarrow>
         candidate_token req = Some (JStr t) \<and>
         (\<exists>d d'. webhookTokens srv t = Some d \<and> webhookTokens srv' t = Some d' \<and>
            usageCount d' = usageCount d + 1 \<and> lastUsed d' = Some (fst (now e s)) \<and>
            name d' = name d \<and> created d' = created d) \<and>
         (\<forall>k. k \<noteq> t \<longrightarrow> webhookTokens srv' k = webhookTokens srv k) \<and>
         webhookData srv' = webhookData srv \<and> extractedData srv' = extractedData srv"
    unfolding validateWebhookToken_Inr_iff by auto
  have c: "\<forall>r srv' s'. validateWebhookToken e req srv s = (Inl r, srv', s') \<longrightarrow> srv' = srv \<and> s' = s"
    using validateWebhookToken_Inl by blast
  have d: "status token_required = 401 \<and> message token_required = ''Webhook token required''
   \<and> status token_invalid = 401 \<and> message token_invalid = ''Invalid webhook token''"
    by (simp add: token_required_def token_invalid_def)
  from a b c d validateWebhookToken_required [of req e srv s]
    validateWebhookToken_invalid [of req srv e s]
  show ?thesis by blast
qed

lemma candidate_x_header:
  "candidate_token (example_request\<lparr>headers := [''x-webhook-token'' \<mapsto> defaultToken]\<rparr>) = Some (JStr defaultToken)"
  by (simp add: candidate_token_def js_or_def example_request_def defaultToken_def)

theorem gate_succeeds_iff_valid_token_witness:
  "(\<exists>srv' s'. validateWebhookToken example_env
       (example_request\<lparr>headers := [''x-webhook-token'' \<mapsto> defaultToken]\<rparr>) (initial_server 0) io0
       = (Inr defaultToken, srv', s')
     \<and> map_option usageCount (webhookTokens srv' defaultToken) = Some 1
     \<and> map_option lastUsed (webhookTokens srv' defaultToken) = Some (Some 0))
   \<and> validateWebhookToken example_env example_request (initial_server 0) io0
       = (Inl token_required, initial_server 0, io0)"
proof -
  let ?req = "example_request\<lparr>headers := [''x-webhook-token'' \<mapsto> defaultToken]\<rparr>"
  note g = gate_succeeds_iff_valid_token [of example_env ?req "initial_server 0" io0]
  note h = gate_succeeds_iff_valid_token [of example_env example_request "initial_server 0" io0]
  have k: "defaultToken \<in> dom (webhookTokens (initial_server 0))" "defaultToken \<noteq> []"
    by (simp_all add: initial_server_def initial_tokens_def defaultToken_def)
  with g candidate_x_header obtain t srv' s' where
    v: "validateWebhookToken example_env ?req (initial_server 0) io0 = (Inr t, srv', s')"
    by blast
  with g have t: "candidate_token ?req = Some (JStr t)" by blast
  with candidate_x_header have t': "t = defaultToken" by simp
  from g v obtain d d' where
    "webhookTokens (initial_server 0) t = Some d" "webhookTokens srv' t = Some d'"
    "usageCount d' = usageCount d + 1" "lastUsed d' = Some (fst (now example_env io0))"
    by blast
  with t' have "map_option usageCount (webhookTokens srv' defaultToken) = Some 1"
    "map_option lastUsed (webhookTokens srv' defaultToken) = Some (Some 0)"
    by (auto simp: initial_server_def initial_tokens_def now_def example_env_def io0_def)
  with v t' have first: "\<exists>srv' s'. validateWebhookToken example_env ?req (initial_server 0) io0
       = (Inr defaultToken, srv', s')
     \<and> map_option usageCount (webhookTokens srv' defaultToken) = Some 1
     \<and> map_option lastUsed (webhookTokens srv' defaultToken) = Some (Some 0)" by blast
  have "\<not> truthy_opt (candidate_token example_request)"
    by (simp add: candidate_token_def js_or_def example_request_def)
  with h have "validateWebhookToken example_env example_request (initial_server 0) io0
       = (Inl token_required, initial_server 0, io0)" by blast
  with first show ?thesis by blast
qed


section \<open>The candidate credential\<close>

lemma js_includes_iff: "js_includes a pat \<longleftrightarrow> (\<exists>p q. a = p @ pat @ q)"
proof (induction a)
  case Nil
  then show ?case by auto
next
  case (Cons c cs)
  show ?case
  proof
    assume "js_includes (c # cs) pat"
    then consider "prefix pat (c # cs)" | "js_includes cs pat" by auto
    then show "\<exists>p q. c # cs = p @ pat @ q"
    proof cases
      case 1
      then obtain q where "c # cs = pat @ q" by (auto simp: prefix_def)
      then have "c # cs = [] @ pat @ q" by simp
      then show ?thesis by blast
    next
      case 2
      with Cons.IH obtain p q where "cs = p @ pat @ q" by blast
      then have "c # cs = (c # p) @ pat @ q" by simp
      then show ?thesis by blast
    qed
  next
    assume "\<exists>p q. c # cs = p @ pat @ q"
    then obtain p q where pq: "c # cs = p @ pat @ q" by blast
    show "js_includes (c # cs) pat"
    proof (cases p)
      case Nil
      with pq have "prefix pat (c # cs)" by (simp add: prefix_def)
      then show ?thesis by simp
    next
      case (Cons a p')
      with pq have "cs = p' @ pat @ q" by simp
      with Cons.IH have "js_includes cs pat" by blast
      then show ?thesis by simp
    qed
  qed
qed

lemma js_replace_prefix: "pat \<noteq> [] \<Longrightarrow> js_replace (pat @ t) pat rep = rep @ t"
  by (cases pat) auto

lemma js_replace_absent: "\<not> js_includes a pat \<Longrightarrow> js_replace a pat rep = a"
  by (induction a) (auto split: if_splits)

text \<open>The occurrence that is replaced is the first one: none starts before it.\<close>

lemma js_replace_first:
  "pat \<noteq> [] \<Longrightarrow> \<not> js_includes (p @ butlast pat) pat \<Longrightarrow>
     js_replace (p @ pat @ q) pat rep = p @ rep @ q"
proof (induction p)
  case Nil
  then show ?case by (cases pat) auto
next
  case (Cons c p)
  have np: "\<not> prefix pat (c # p @ pat @ q)"
  proof
    assume a: "prefix pat (c # p @ pat @ q)"
    have "pat = butlast pat @ [last pat]" using Cons.prems(1) by simp
    then have "c # p @ pat @ q = ((c # p) @ butlast pat) @ ([last pat] @ q)"
      by (metis append_Cons append_assoc)
    then have b: "prefix ((c # p) @ butlast pat) (c # p @ pat @ q)"
      unfolding prefix_def by blast
    have "length pat \<le> length ((c # p) @ butlast pat)" using Cons.prems(1) by (cases pat) auto
    with a b have "prefix pat ((c # p) @ butlast pat)" by (rule prefix_length_prefix)
    then have "js_includes ((c # p) @ butlast pat) pat" by simp
    with Cons.prems(2) show False by blast
  qed
  from Cons.prems have "\<not> js_includes (p @ butlast pat) pat" by simp
  with Cons.IH Cons.prems(1) have "js_replace (p @ pat @ q) pat rep = p @ rep @ q" by blast
  with np show ?case by simp
qed

lemma js_replace_empty_iff:
  "pat \<noteq> [] \<Longrightarrow> js_replace a pat [] = [] \<longleftrightarrow> a = [] \<or> a = pat"
proof (cases a)
  case Nil
  then show ?thesis by simp
next
  case (Cons c cs)
  assume ne: "pat \<noteq> []"
  show ?thesis
  proof (cases "prefix pat a")
    case True
    then obtain q where q: "a = pat @ q" by (auto simp: prefix_def)
    have "drop (length pat) (pat @ q) = q" by simp
    with q have "drop (length pat) a = q" by simp
    with True Cons have "js_replace a pat [] = q" by simp
    with q Cons show ?thesis by auto
  next
    case False
    then have "a \<noteq> pat" by auto
    moreover from False Cons have "js_replace a pat [] = c # js_replace cs pat []"
      by (simp only: js_replace.simps if_False)
    ultimately show ?thesis using Cons by simp
  qed
qed

lemma candidate_from_x_header:
  "headers req ''x-webhook-token'' = Some t \<Longrightarrow> t \<noteq> [] \<Longrightarrow> candidate_token req = Some (JStr t)"
  by (simp add: candidate_token_def js_or_def)

lemma candidate_from_authorization:
  "headers req ''x-webhook-token'' = None \<or> headers req ''x-webhook-token'' = Some [] \<Longrightarrow>
   headers req ''authorization'' = Some a \<Longrightarrow> js_replace a ''Bearer '' [] \<noteq> [] \<Longrightarrow>
     candidate_token req = Some (JStr (js_replace a ''Bearer '' []))"
  by (auto simp: candidate_token_def js_or_def)

lemma candidate_from_query:
  "headers req ''x-webhook-token'' = None \<or> headers req ''x-webhook-token'' = Some [] \<Longrightarrow>
   headers req ''authorization'' = None \<or>
     (\<exists>a. headers req ''authorization'' = Some a \<and> js_replace a ''Bearer '' [] = []) \<Longrightarrow>
     candidate_token req = query req ''token''"
  by (auto simp: candidate_token_def js_or_def)

text \<open>
  C9, as the code has it. The candidate is the first non-empty one of: the
  \<^verbatim>\<open>x-webhook-token\<close> header; the \<^verbatim>\<open>authorization\<close> header with the first occurrence
  of \<^verbatim>\<open>Bearer \<close> taken out; the \<^verbatim>\<open>token\<close> query parameter. For a header value that
  begins with \<^verbatim>\<open>Bearer \<close> exactly that prefix is removed, a value without
  \<^verbatim>\<open>Bearer \<close> is the candidate as it stands, and an occurrence further inside the
  value is removed where it stands.
\<close>

theorem candidate_token_priority:
  "(\<forall>t. headers req ''x-webhook-token'' = Some t \<and> t \<noteq> [] \<longrightarrow> candidate_token req = Some (JStr t))
   \<and> (\<forall>a. (headers req ''x-webhook-token'' = None \<or> headers req ''x-webhook-token'' = Some []) \<and>
          headers req ''authorization'' = Some a \<and> js_replace a ''Bearer '' [] \<noteq> [] \<longrightarrow>
          candidate_token req = Some (JStr (js_replace a ''Bearer '' [])))
   \<and> ((headers req ''x-webhook-token'' = None \<or> headers req ''x-webhook-token'' = Some []) \<and>
       (headers req ''authorization'' = None \<or>
          (\<exists>a. headers req ''authorization'' = Some a \<and> js_replace a ''Bearer '' [] = [])) \<longrightarrow>
          candidate_token req = query req ''token'')
   \<and> (\<forall>t. js_replace (''Bearer '' @ t) ''Bearer '' [] = t)
   \<and> (\<forall>a. \<not> js_includes a ''Bearer '' \<longrightarrow> js_replace a ''Bearer '' [] = a)
   \<and> (\<forall>p q. \<not> js_includes (p @ ''Bearer'') ''Bearer '' \<longrightarrow>
          js_replace (p @ ''Bearer '' @ q) ''Bearer '' [] = p @ q)"
proof -
  have "\<forall>t. js_replace (''Bearer '' @ t) ''Bearer '' [] = t"
    using js_replace_prefix [of "''Bearer ''" _ "[]"] by simp
  moreover have "\<forall>a. \<not> js_includes a ''Bearer '' \<longrightarrow> js_replace a ''Bearer '' [] = a"
    using js_replace_absent by blast
  moreover have "\<forall>p q. \<not> js_includes (p @ ''Bearer'') ''Bearer '' \<longrightarrow>
          js_replace (p @ ''Bearer '' @ q) ''Bearer '' [] = p @ q"
    using js_replace_first [of "''Bearer ''" _ _ "[]"] by simp
  ultimately show ?thesis
    using candidate_from_x_header [of req] candidate_from_authorization [of req]
      candidate_from_query [of req]
    by blast
qed

theorem candidate_token_priority_witness:
  "candidate_token (example_request\<lparr>headers := [''x-webhook-token'' \<mapsto> ''abc'',
       ''authorization'' \<mapsto> ''Bearer def''], query := [''token'' \<mapsto> JStr ''ghi'']\<rparr>) = Some (JStr ''abc'')
   \<and> candidate_token (example_request\<lparr>headers := [''authorization'' \<mapsto> ''Bearer def''],
       query := [''token'' \<mapsto> JStr ''ghi'']\<rparr>) = Some (JStr ''def'')
   \<and> candidate_token (example_request\<lparr>query := [''token'' \<mapsto> JStr ''ghi'']\<rparr>) = Some (JStr ''ghi'')"
proof -
  let ?r1 = "example_request\<lparr>headers := [''x-webhook-token'' \<mapsto> ''abc'',
       ''authorization'' \<mapsto> ''Bearer def''], query := [''token'' \<mapsto> JStr ''ghi'']\<rparr>"
  let ?r2 = "example_request\<lparr>headers := [''authorization'' \<mapsto> ''Bearer def''],
       query := [''token'' \<mapsto> JStr ''ghi'']\<rparr>"
  let ?r3 = "example_request\<lparr>query := [''token'' \<mapsto> JStr ''ghi'']\<rparr>"
  have "headers ?r1 ''x-webhook-token'' = Some ''abc'' \<and> ''abc'' \<noteq> []"
    by simp
  with candidate_token_priority [of ?r1] have 1: "candidate_token ?r1 = Some (JStr ''abc'')"
    by blast
  have b: "js_replace ''Bearer def'' ''Bearer '' [] = ''def''"
    using candidate_token_priority [of ?r2] by simp
  have "(headers ?r2 ''x-webhook-token'' = None \<or> headers ?r2 ''x-webhook-token'' = Some []) \<and>
     headers ?r2 ''authorization'' = Some ''Bearer def'' \<and> js_replace ''Bearer def'' ''Bearer '' [] \<noteq> []"
    by simp
  with candidate_token_priority [of ?r2]
  have "candidate_token ?r2 = Some (JStr (js_replace ''Bearer def'' ''Bearer '' []))" by blast
  with b have 2: "candidate_token ?r2 = Some (JStr ''def'')" by simp
  have "(headers ?r3 ''x-webhook-token'' = None \<or> headers ?r3 ''x-webhook-token'' = Some []) \<and>
       (headers ?r3 ''authorization'' = None \<or>
          (\<exists>a. headers ?r3 ''authorization'' = Some a \<and> js_replace a ''Bearer '' [] = []))"
    by (simp add: example_request_def)
  with candidate_token_priority [of ?r3] have "candidate_token ?r3 = query ?r3 ''token''" by blast
  then have 3: "candidate_token ?r3 = Some (JStr ''ghi'')" by simp
  from 1 2 3 show ?thesis by blast
qed

text \<open>
  The claim as written fails: an \<^verbatim>\<open>authorization\<close> header that holds the bare token,
  with no \<^verbatim>\<open>Bearer \<close> prefix, is the candidate as it stands and passes the gate; and
  \<^verbatim>\<open>Bearer \<close> is taken out from inside a value that does not begin with it.
\<close>

theorem authorization_without_bearer_counterexample:
  "\<not> prefix ''Bearer '' defaultToken
   \<and> candidate_token (example_request\<lparr>headers := [''authorization'' \<mapsto> defaultToken]\<rparr>)
       = Some (JStr defaultToken)
   \<and> fst (validateWebhookToken example_env
            (example_request\<lparr>headers := [''authorization'' \<mapsto> defaultToken]\<rparr>)
            (initial_server 0) io0) = Inr defaultToken
   \<and> candidate_token (example_request\<lparr>headers := [''authorization'' \<mapsto> ''Token Bearer abc'']\<rparr>)
       = Some (JStr ''Token abc'')"
  by (simp add: candidate_token_def js_or_def example_request_def defaultToken_def
      validateWebhookToken_def initial_server_def initial_tokens_def now_def example_env_def io0_def)

lemma candidate_skips_empty_x_header:
  "headers req ''x-webhook-token'' = Some [] \<Longrightarrow>
     candidate_token req = candidate_token (req\<lparr>headers := (headers req)(''x-webhook-token'' := None)\<rparr>)"
  by (simp add: candidate_token_def js_or_def)

lemma candidate_skips_empty_authorization:
  "headers req ''authorization'' = Some a \<Longrightarrow> js_replace a ''Bearer '' [] = [] \<Longrightarrow>
     candidate_token req = candidate_token (req\<lparr>headers := (headers req)(''authorization'' := None)\<rparr>)"
  by (simp add: candidate_token_def js_or_def)

lemma candidate_empty_x_then_authorization:
  "headers req ''x-webhook-token'' = Some [] \<Longrightarrow> headers req ''authorization'' = Some a \<Longrightarrow>
   js_replace a ''Bearer '' [] \<noteq> [] \<Longrightarrow>
     candidate_token req = Some (JStr (js_replace a ''Bearer '' []))"
  using candidate_from_authorization [of req a] by simp

lemma candidate_empty_headers_then_query:
  "headers req ''x-webhook-token'' = None \<or> headers req ''x-webhook-token'' = Some [] \<Longrightarrow>
   headers req ''authorization'' = None \<or> headers req ''authorization'' = Some [] \<or>
     headers req ''authorization'' = Some ''Bearer '' \<Longrightarrow>
     candidate_token req = query req ''token''"
proof -
  assume x: "headers req ''x-webhook-token'' = None \<or> headers req ''x-webhook-token'' = Some []"
  assume "headers req ''authorization'' = None \<or> headers req ''authorization'' = Some [] \<or>
     headers req ''authorization'' = Some ''Bearer ''"
  then have "headers req ''authorization'' = None \<or>
       (\<exists>a. headers req ''authorization'' = Some a \<and> js_replace a ''Bearer '' [] = [])"
    by auto
  with x show ?thesis by (rule candidate_from_query)
qed

text \<open>
  C10. A source that is present but empty is passed over and the next one in the order
  is consulted. With an empty \<^verbatim>\<open>x-webhook-token\<close> header the candidate is what the
  \<^verbatim>\<open>authorization\<close> header gives, whatever the query holds; with that header absent or
  empty as well (the values \<^verbatim>\<open>""\<close> and \<^verbatim>\<open>"Bearer "\<close>, of which the second cannot come
  over the wire, where trailing blanks are cut) the candidate is the \<^verbatim>\<open>token\<close> query
  parameter. An empty header counts exactly as an absent one. So an empty
  \<^verbatim>\<open>x-webhook-token\<close> header with a valid bearer token, or with no
  \<^verbatim>\<open>authorization\<close> header and a valid \<^verbatim>\<open>token\<close> query parameter, passes the gate.
  The token the gate lets through is never empty, and when every source is absent or
  empty the answer is 401 "Webhook token required".
\<close>

theorem empty_source_is_skipped:
  "(headers req ''x-webhook-token'' = Some [] \<longrightarrow>
      candidate_token req = candidate_token (req\<lparr>headers := (headers req)(''x-webhook-token'' := None)\<rparr>))
   \<and> (\<forall>a. headers req ''authorization'' = Some a \<and> (a = [] \<or> a = ''Bearer '') \<longrightarrow>
      candidate_token req = candidate_token (req\<lparr>headers := (headers req)(''authorization'' := None)\<rparr>))
   \<and> (\<forall>t d. headers req ''x-webhook-token'' = Some [] \<and> headers req ''authorization'' = None \<and>
        query req ''token'' = Some (JStr t) \<and> t \<noteq> [] \<and> webhookTokens srv t = Some d \<longrightarrow>
        (\<exists>srv' s'. validateWebhookToken e req srv s = (Inr t, srv', s')))
   \<and> (\<forall>t srv' s'. validateWebhookToken e req srv s = (Inr t, srv', s') \<longrightarrow> t \<noteq> [])
   \<and> ((headers req ''x-webhook-token'' = None \<or> headers req ''x-webhook-token'' = Some []) \<and>
       (headers req ''authorization'' = None \<or> headers req ''authorization'' = Some [] \<or>
        headers req ''authorization'' = Some ''Bearer '') \<and>
       (query req ''token'' = None \<or> query req ''token'' = Some (JStr [])) \<longrightarrow>
        validateWebhookToken e req srv s = (Inl token_required, srv, s))
   \<and> (\<forall>a. headers req ''x-webhook-token'' = Some [] \<and> headers req ''authorization'' = Some a \<and>
        js_replace a ''Bearer '' [] \<noteq> [] \<longrightarrow>
        candidate_token req = Some (JStr (js_replace a ''Bearer '' [])))
   \<and> ((headers req ''x-webhook-token'' = None \<or> headers req ''x-webhook-token'' = Some []) \<and>
       (headers req ''authorization'' = None \<or> headers req ''authorization'' = Some [] \<or>
        headers req ''authorization'' = Some ''Bearer '') \<longrightarrow>
        candidate_token req = query req ''token'')
   \<and> (\<forall>t d. headers req ''x-webhook-token'' = Some [] \<and>
        headers req ''authorization'' = Some (''Bearer '' @ t) \<and> t \<noteq> [] \<and>
        webhookTokens srv t = Some d \<longrightarrow>
        (\<exists>srv' s'. validateWebhookToken e req srv s = (Inr t, srv', s')))"
proof -
  have 1: "headers req ''x-webhook-token'' = Some [] \<longrightarrow>
      candidate_token req = candidate_token (req\<lparr>headers := (headers req)(''x-webhook-token'' := None)\<rparr>)"
    using candidate_skips_empty_x_header by blast
  have 2: "\<forall>a. headers req ''authorization'' = Some a \<and> (a = [] \<or> a = ''Bearer '') \<longrightarrow>
      candidate_token req = candidate_token (req\<lparr>headers := (headers req)(''authorization'' := None)\<rparr>)"
    using candidate_skips_empty_authorization [of req] js_replace_empty_iff [of "''Bearer ''"]
    by blast
  have 3: "\<forall>t d. headers req ''x-webhook-token'' = Some [] \<and> headers req ''authorization'' = None \<and>
        query req ''token'' = Some (JStr t) \<and> t \<noteq> [] \<and> webhookTokens srv t = Some d \<longrightarrow>
        (\<exists>srv' s'. validateWebhookToken e req srv s = (Inr t, srv', s'))"
  proof (intro allI impI)
    fix t d
    assume a: "headers req ''x-webhook-token'' = Some [] \<and> headers req ''authorization'' = None \<and>
        query req ''token'' = Some (JStr t) \<and> t \<noteq> [] \<and> webhookTokens srv t = Some d"
    then have "candidate_token req = Some (JStr t)"
      using candidate_from_query [of req] by simp
    with a show "\<exists>srv' s'. validateWebhookToken e req srv s = (Inr t, srv', s')"
      unfolding validateWebhookToken_Inr_iff by simp
  qed
  have 4: "\<forall>t srv' s'. validateWebhookToken e req srv s = (Inr t, srv', s') \<longrightarrow> t \<noteq> []"
    unfolding validateWebhookToken_Inr_iff by simp
  have 7: "(headers req ''x-webhook-token'' = None \<or> headers req ''x-webhook-token'' = Some []) \<and>
       (headers req ''authorization'' = None \<or> headers req ''authorization'' = Some [] \<or>
        headers req ''authorization'' = Some ''Bearer '') \<longrightarrow>
        candidate_token req = query req ''token''"
    using candidate_empty_headers_then_query [of req] by blast
  have 5: "(headers req ''x-webhook-token'' = None \<or> headers req ''x-webhook-token'' = Some []) \<and>
       (headers req ''authorization'' = None \<or> headers req ''authorization'' = Some [] \<or>
        headers req ''authorization'' = Some ''Bearer '') \<and>
       (query req ''token'' = None \<or> query req ''token'' = Some (JStr [])) \<longrightarrow>
        validateWebhookToken e req srv s = (Inl token_required, srv, s)"
  proof
    assume a: "(headers req ''x-webhook-token'' = None \<or> headers req ''x-webhook-token'' = Some []) \<and>
       (headers req ''authorization'' = None \<or> headers req ''authorization'' = Some [] \<or>
        headers req ''authorization'' = Some ''Bearer '') \<and>
       (query req ''token'' = None \<or> query req ''token'' = Some (JStr []))"
    with 7 have "candidate_token req = query req ''token''" by blast
    with a have "\<not> truthy_opt (candidate_token req)" by auto
    then show "validateWebhookToken e req srv s = (Inl token_required, srv, s)"
      by (rule validateWebhookToken_required)
  qed
  have 6: "\<forall>a. headers req ''x-webhook-token'' = Some [] \<and> headers req ''authorization'' = Some a \<and>
        js_replace a ''Bearer '' [] \<noteq> [] \<longrightarrow>
        candidate_token req = Some (JStr (js_replace a ''Bearer '' []))"
    using candidate_empty_x_then_authorization [of req] by blast
  have 8: "\<forall>t d. headers req ''x-webhook-token'' = Some [] \<and>
        headers req ''authorization'' = Some (''Bearer '' @ t) \<and> t \<noteq> [] \<and>
        webhookTokens srv t = Some d \<longrightarrow>
        (\<exists>srv' s'. validateWebhookToken e req srv s = (Inr t, srv', s'))"
  proof (intro allI impI)
    fix t d
    assume a: "headers req ''x-webhook-token'' = Some [] \<and>
        headers req ''authorization'' = Some (''Bearer '' @ t) \<and> t \<noteq> [] \<and>
        webhookTokens srv t = Some d"
    have r: "js_replace (''Bearer '' @ t) ''Bearer '' [] = t"
      using js_replace_prefix [of "''Bearer ''" t "[]"] by simp
    with a have "candidate_token req = Some (JStr t)"
      using candidate_empty_x_then_authorization [of req "''Bearer '' @ t"] by simp
    with a show "\<exists>srv' s'. validateWebhookToken e req srv s = (Inr t, srv', s')"
      unfolding validateWebhookToken_Inr_iff by simp
  qed
  from 1 2 3 4 5 6 7 8 show ?thesis by blast
qed

theorem empty_source_is_skipped_witness:
  "(\<exists>srv' s'. validateWebhookToken example_env
      (example_request\<lparr>headers := [''x-webhook-token'' \<mapsto> []],
                        query := [''token'' \<mapsto> JStr defaultToken]\<rparr>) (initial_server 0) io0
      = (Inr defaultToken, srv', s'))
   \<and> validateWebhookToken example_env
      (example_request\<lparr>headers := [''x-webhook-token'' \<mapsto> [], ''authorization'' \<mapsto> ''Bearer ''],
                        query := [''token'' \<mapsto> JStr []]\<rparr>) (initial_server 0) io0
      = (Inl token_required, initial_server 0, io0)
   \<and> (\<exists>srv' s'. validateWebhookToken example_env
      (example_request\<lparr>headers := [''x-webhook-token'' \<mapsto> [],
                                     ''authorization'' \<mapsto> ''Bearer '' @ defaultToken],
                        query := [''token'' \<mapsto> JStr ''unknown'']\<rparr>) (initial_server 0) io0
      = (Inr defaultToken, srv', s'))"
proof -
  let ?r1 = "example_request\<lparr>headers := [''x-webhook-token'' \<mapsto> []],
                        query := [''token'' \<mapsto> JStr defaultToken]\<rparr>"
  let ?r2 = "example_request\<lparr>headers := [''x-webhook-token'' \<mapsto> [], ''authorization'' \<mapsto> ''Bearer ''],
                        query := [''token'' \<mapsto> JStr []]\<rparr>"
  let ?r3 = "example_request\<lparr>headers := [''x-webhook-token'' \<mapsto> [],
                                     ''authorization'' \<mapsto> ''Bearer '' @ defaultToken],
                        query := [''token'' \<mapsto> JStr ''unknown'']\<rparr>"
  have d: "defaultToken \<noteq> [] \<and>
        webhookTokens (initial_server 0) defaultToken =
          Some \<lparr>name = JStr ''Default Token'', created = 0, lastUsed = None, usageCount = 0\<rparr>"
    by (simp add: initial_server_def initial_tokens_def defaultToken_def)
  have "headers ?r1 ''x-webhook-token'' = Some [] \<and> headers ?r1 ''authorization'' = None \<and>
        query ?r1 ''token'' = Some (JStr defaultToken)"
    by simp
  with d empty_source_is_skipped [of ?r1 "initial_server 0" example_env io0]
  have 1: "\<exists>srv' s'. validateWebhookToken example_env ?r1 (initial_server 0) io0
      = (Inr defaultToken, srv', s')" by blast
  have "(headers ?r2 ''x-webhook-token'' = None \<or> headers ?r2 ''x-webhook-token'' = Some []) \<and>
       (headers ?r2 ''authorization'' = None \<or> headers ?r2 ''authorization'' = Some [] \<or>
        headers ?r2 ''authorization'' = Some ''Bearer '') \<and>
       (query ?r2 ''token'' = None \<or> query ?r2 ''token'' = Some (JStr []))"
    by simp
  with empty_source_is_skipped [of ?r2 "initial_server 0" example_env io0]
  have 2: "validateWebhookToken example_env ?r2 (initial_server 0) io0
      = (Inl token_required, initial_server 0, io0)" by blast
  have "headers ?r3 ''x-webhook-token'' = Some [] \<and>
        headers ?r3 ''authorization'' = Some (''Bearer '' @ defaultToken)"
    by simp
  with d empty_source_is_skipped [of ?r3 "initial_server 0" example_env io0]
  have 3: "\<exists>srv' s'. validateWebhookToken example_env ?r3 (initial_server 0) io0
      = (Inr defaultToken, srv', s')" by blast
  from 1 2 3 show ?thesis by blast
qed


section \<open>The content extractor\<close>

lemma classify_json:
  "js_includes (content_type r) ''application/json'' \<Longrightarrow>
     classify e u r s = (Inr (Json (data r) u (fst (now e s))), snd (now e s))"
  by (simp add: classify_def Let_def split: prod.splits)

lemma classify_html:
  "\<not> js_includes (content_type r) ''application/json'' \<Longrightarrow>
   js_includes (content_type r) ''text/html'' \<Longrightarrow> cheerio e (data r) = Inr h \<Longrightarrow>
     classify e u r s = (Inr (Html h u (fst (now e s))), snd (now e s))"
  by (simp add: classify_def Let_def split: prod.splits)

lemma classify_html_throws:
  "\<not> js_includes (content_type r) ''application/json'' \<Longrightarrow>
   js_includes (content_type r) ''text/html'' \<Longrightarrow> cheerio e (data r) = Inl m \<Longrightarrow>
     classify e u r s = (Inl m, s)"
  by (simp add: classify_def Let_def split: prod.splits)

lemma classify_text:
  "\<not> js_includes (content_type r) ''application/json'' \<Longrightarrow>
   \<not> js_includes (content_type r) ''text/html'' \<Longrightarrow>
   js_includes (content_type r) ''text/plain'' \<or> js_includes (content_type r) ''text/markdown'' \<Longrightarrow>
     classify e u r s = (Inr (Text (data r) u (fst (now e s))), snd (now e s))"
  by (auto simp: classify_def Let_def split: prod.splits)

lemma classify_other:
  "\<not> js_includes (content_type r) ''application/json'' \<Longrightarrow>
   \<not> js_includes (content_type r) ''text/html'' \<Longrightarrow>
   \<not> js_includes (content_type r) ''text/plain'' \<Longrightarrow>
   \<not> js_includes (content_type r) ''text/markdown'' \<Longrightarrow>
     classify e u r s = (Inr (Other (content_type r) (data r) u (fst (now e s))), snd (now e s))"
  by (simp add: classify_def Let_def split: prod.splits)

lemma try_extract_get_fails:
  "js_string u = Some shown \<Longrightarrow> get e u (request_headers token) s = (Inl m, s1) \<Longrightarrow>
     try_extract e u token s = (Inl m, s1)"
  by (simp add: try_extract_def)

lemma try_extract_fetched:
  "js_string u = Some shown \<Longrightarrow> get e u (request_headers token) s = (Inr r, s1) \<Longrightarrow>
     try_extract e u token s = classify e u r s1"
  by (simp add: try_extract_def)

lemma extractDataFromUrl_returned:
  "try_extract e u token s = (Inr x, s1) \<Longrightarrow> extractDataFromUrl e u token s = (Inr x, s1)"
  by (simp add: extractDataFromUrl_def)

lemma extractDataFromUrl_caught:
  "js_string u = Some shown \<Longrightarrow> try_extract e u token s = (Inl m, s1) \<Longrightarrow>
     extractDataFromUrl e u token s = (Inr (Error m u (fst (now e s1))), snd (now e s1))"
  by (simp add: extractDataFromUrl_def split: prod.splits)

lemma extractDataFromUrl_raises:
  "js_string u = None \<Longrightarrow> extractDataFromUrl e u token s = (Inl cannot_convert, s)"
  by (simp add: extractDataFromUrl_def try_extract_def)

lemma extractDataFromUrl_fetched:
  "js_string u = Some shown \<Longrightarrow> get e u (request_headers token) s = (Inr r, s1) \<Longrightarrow>
   classify e u r s1 = (Inr x, s2) \<Longrightarrow> extractDataFromUrl e u token s = (Inr x, s2)"
  by (simp add: extractDataFromUrl_returned try_extract_fetched)

lemma extractDataFromUrl_processing_fails:
  "js_string u = Some shown \<Longrightarrow> get e u (request_headers token) s = (Inr r, s1) \<Longrightarrow>
   classify e u r s1 = (Inl m, s2) \<Longrightarrow>
     extractDataFromUrl e u token s = (Inr (Error m u (fst (now e s2))), snd (now e s2))"
  by (simp add: extractDataFromUrl_caught try_extract_fetched)

lemma url_of_classify: "classify e u r s = (Inr x, s') \<Longrightarrow> url_of x = u"
  by (auto simp: classify_def Let_def split: prod.splits if_splits sum.splits)

lemma url_of_try_extract: "try_extract e u token s = (Inr x, s') \<Longrightarrow> url_of x = u"
  by (auto simp: try_extract_def split: option.splits prod.splits sum.splits dest: url_of_classify)

text \<open>For a URL that has a text, the extractor returns a result, and one for that URL.\<close>

lemma extractDataFromUrl_total:
  assumes "js_string u = Some shown"
  shows "\<exists>x s'. extractDataFromUrl e u token s = (Inr x, s') \<and> url_of x = u"
proof (cases "try_extract e u token s")
  case (Pair r s1)
  show ?thesis
  proof (cases r)
    case (Inl m)
    with Pair extractDataFromUrl_caught [OF assms, of e token s m s1] show ?thesis by simp
  next
    case (Inr x)
    with Pair extractDataFromUrl_returned [of e u token s x s1] url_of_try_extract [of e u token s x s1]
    show ?thesis by simp
  qed
qed

lemma data_cases:
  "(parsed r = None \<longrightarrow> data r = JStr (raw r)) \<and> (\<forall>v. parsed r = Some v \<longrightarrow> data r = v)"
  by (simp add: data_def)

text \<open>
  C3, as the code has it. Once a response has arrived, the variant is chosen by
  substring tests on its declared content type, in this order: \<^verbatim>\<open>application/json\<close>
  gives the \<^verbatim>\<open>json\<close> variant; else \<^verbatim>\<open>text/html\<close> gives the \<^verbatim>\<open>html\<close> variant with
  the fields cheerio reads off the page, and the \<^verbatim>\<open>error\<close> variant with the message
  of the exception when reading the page throws; else \<^verbatim>\<open>text/plain\<close> or
  \<^verbatim>\<open>text/markdown\<close> gives the \<^verbatim>\<open>text\<close> variant; else the \<^verbatim>\<open>other\<close> variant with
  the declared type, which is the empty text when the header is absent. The
  \<^verbatim>\<open>json\<close>, \<^verbatim>\<open>text\<close> and \<^verbatim>\<open>other\<close> variants carry the body as axios hands it over:
  the raw text when it does not parse as JSON, the parsed value when it does. The result
  is one value of the sum type \<open>extracted\<close>, so exactly one variant is populated.
\<close>

theorem variant_chosen_by_content_type:
  "get e (JStr u) (request_headers token) s = (Inr r, s1) \<Longrightarrow>
   (js_includes (content_type r) ''application/json'' \<longrightarrow>
      fst (extractDataFromUrl e (JStr u) token s) = Inr (Json (data r) (JStr u) (fst (now e s1))))
   \<and> (\<forall>h. \<not> js_includes (content_type r) ''application/json'' \<and>
          js_includes (content_type r) ''text/html'' \<and> cheerio e (data r) = Inr h \<longrightarrow>
      fst (extractDataFromUrl e (JStr u) token s) = Inr (Html h (JStr u) (fst (now e s1))))
   \<and> (\<forall>m. \<not> js_includes (content_type r) ''application/json'' \<and>
          js_includes (content_type r) ''text/html'' \<and> cheerio e (data r) = Inl m \<longrightarrow>
      fst (extractDataFromUrl e (JStr u) token s) = Inr (Error m (JStr u) (fst (now e s1))))
   \<and> (\<not> js_includes (content_type r) ''application/json'' \<and>
       \<not> js_includes (content_type r) ''text/html'' \<and>
       (js_includes (content_type r) ''text/plain'' \<or> js_includes (content_type r) ''text/markdown'') \<longrightarrow>
      fst (extractDataFromUrl e (JStr u) token s) = Inr (Text (data r) (JStr u) (fst (now e s1))))
   \<and> (\<not> js_includes (content_type r) ''application/json'' \<and>
       \<not> js_includes (content_type r) ''text/html'' \<and>
       \<not> js_includes (content_type r) ''text/plain'' \<and>
       \<not> js_includes (content_type r) ''text/markdown'' \<longrightarrow>
      fst (extractDataFromUrl e (JStr u) token s)
        = Inr (Other (content_type r) (data r) (JStr u) (fst (now e s1))))
   \<and> (resp_headers r ''content-type'' = None \<longrightarrow>
      fst (extractDataFromUrl e (JStr u) token s) = Inr (Other [] (data r) (JStr u) (fst (now e s1))))
   \<and> (parsed r = None \<longrightarrow> data r = JStr (raw r))
   \<and> (\<forall>v. parsed r = Some v \<longrightarrow> data r = v)"
proof -
  assume g: "get e (JStr u) (request_headers token) s = (Inr r, s1)"
  have j: "js_string (JStr u) = Some u" by simp
  note f = extractDataFromUrl_fetched [OF j g]
  note p = extractDataFromUrl_processing_fails [OF j g]
  have absent: "resp_headers r ''content-type'' = None \<Longrightarrow> content_type r = []"
    by (simp add: content_type_def)
  have nil: "\<not> js_includes [] ''application/json''" "\<not> js_includes [] ''text/html''"
    "\<not> js_includes [] ''text/plain''" "\<not> js_includes [] ''text/markdown''"
    by simp_all
  have 1: "js_includes (content_type r) ''application/json'' \<longrightarrow>
      fst (extractDataFromUrl e (JStr u) token s) = Inr (Json (data r) (JStr u) (fst (now e s1)))"
    using f classify_json [of r e "JStr u" s1] by simp
  have 2: "\<forall>h. \<not> js_includes (content_type r) ''application/json'' \<and>
          js_includes (content_type r) ''text/html'' \<and> cheerio e (data r) = Inr h \<longrightarrow>
      fst (extractDataFromUrl e (JStr u) token s) = Inr (Html h (JStr u) (fst (now e s1)))"
    using f classify_html [of r e _ "JStr u" s1] by simp
  have 3: "\<forall>m. \<not> js_includes (content_type r) ''application/json'' \<and>
          js_includes (content_type r) ''text/html'' \<and> cheerio e (data r) = Inl m \<longrightarrow>
      fst (extractDataFromUrl e (JStr u) token s) = Inr (Error m (JStr u) (fst (now e s1)))"
    using p classify_html_throws [of r e _ "JStr u" s1] by simp
  have 4: "\<not> js_includes (content_type r) ''application/json'' \<and>
       \<not> js_includes (content_type r) ''text/html'' \<and>
       (js_includes (content_type r) ''text/plain'' \<or> js_includes (content_type r) ''text/markdown'') \<longrightarrow>
      fst (extractDataFromUrl e (JStr u) token s) = Inr (Text (data r) (JStr u) (fst (now e s1)))"
    using f classify_text [of r e "JStr u" s1] by auto
  have 5: "\<not> js_includes (content_type r) ''application/json'' \<and>
       \<not> js_includes (content_type r) ''text/html'' \<and>
       \<not> js_includes (content_type r) ''text/plain'' \<and>
       \<not> js_includes (content_type r) ''text/markdown'' \<longrightarrow>
      fst (extractDataFromUrl e (JStr u) token s)
        = Inr (Other (content_type r) (data r) (JStr u) (fst (now e s1)))"
    using f classify_other [of r e "JStr u" s1] by simp
  have 6: "resp_headers r ''content-type'' = None \<longrightarrow>
      fst (extractDataFromUrl e (JStr u) token s) = Inr (Other [] (data r) (JStr u) (fst (now e s1)))"
  proof
    assume "resp_headers r ''content-type'' = None"
    then have "content_type r = []" by (rule absent)
    with 5 nil show "fst (extractDataFromUrl e (JStr u) token s)
        = Inr (Other [] (data r) (JStr u) (fst (now e s1)))" by simp
  qed
  from 1 2 3 4 5 6 data_cases [of r] show ?thesis by blast
qed

lemma get_serving:
  "get (serving ct d) u hs io0 =
     (Inr \<lparr>resp_headers = (case ct of None \<Rightarrow> Map.empty | Some c \<Rightarrow> [''content-type'' \<mapsto> c]),
            raw = (case d of JStr t \<Rightarrow> t | _ \<Rightarrow> stringify d),
            parsed = (case d of JStr t \<Rightarrow> None | _ \<Rightarrow> Some d)\<rparr>,
      \<lparr>world = 1, outbound = [(u, hs)]\<rparr>)"
  by (simp add: get_def serving_def io0_def)

lemma now_serving: "now (serving ct d) s = (world s, s\<lparr>world := Suc (world s)\<rparr>)"
  by (simp add: now_def serving_def)

lemma cheerio_serving:
  "cheerio (serving ct d) p =
     (if p = JStr example_page then Inr example_fields
      else Inl ''Cannot read properties of null (reading 'type')'')"
  by (simp add: serving_def)

lemma stringify_examples:
  "stringify (JNum 123) = ''123''" "stringify JNull = ''null''"
  by code_simp+

theorem variant_chosen_by_content_type_witness:
  "fst (extractDataFromUrl (serving (Some ''application/json; charset=utf-8'') (JObj [(''k'', JNum 1)]))
         (JStr ''http://t.test/'') None io0)
     = Inr (Json (JObj [(''k'', JNum 1)]) (JStr ''http://t.test/'') 1)
   \<and> fst (extractDataFromUrl (serving (Some ''text/html'') (JStr example_page))
         (JStr ''http://t.test/'') None io0)
     = Inr (Html example_fields (JStr ''http://t.test/'') 1)
   \<and> fst (extractDataFromUrl (serving (Some ''text/markdown'') (JStr ''# T''))
         (JStr ''http://t.test/'') None io0)
     = Inr (Text (JStr ''# T'') (JStr ''http://t.test/'') 1)
   \<and> fst (extractDataFromUrl (serving (Some ''image/png'') (JStr ''PNG''))
         (JStr ''http://t.test/'') None io0)
     = Inr (Other ''image/png'' (JStr ''PNG'') (JStr ''http://t.test/'') 1)
   \<and> fst (extractDataFromUrl (serving None (JStr ''PNG''))
         (JStr ''http://t.test/'') None io0)
     = Inr (Other [] (JStr ''PNG'') (JStr ''http://t.test/'') 1)"
proof -
  let ?u = "JStr ''http://t.test/''"
  have 1: "fst (extractDataFromUrl (serving (Some ''application/json; charset=utf-8'') (JObj [(''k'', JNum 1)]))
         ?u None io0) = Inr (Json (JObj [(''k'', JNum 1)]) ?u 1)"
    using variant_chosen_by_content_type
      [OF get_serving [of "Some ''application/json; charset=utf-8''" "JObj [(''k'', JNum 1)]" ?u "request_headers None"]]
    by (simp add: content_type_def data_def now_serving cheerio_serving)
  have 2: "fst (extractDataFromUrl (serving (Some ''text/html'') (JStr example_page)) ?u None io0)
     = Inr (Html example_fields ?u 1)"
    using variant_chosen_by_content_type
      [OF get_serving [of "Some ''text/html''" "JStr example_page" ?u "request_headers None"]]
    by (simp add: content_type_def data_def now_serving cheerio_serving)
  have 3: "fst (extractDataFromUrl (serving (Some ''text/markdown'') (JStr ''# T'')) ?u None io0)
     = Inr (Text (JStr ''# T'') ?u 1)"
    using variant_chosen_by_content_type
      [OF get_serving [of "Some ''text/markdown''" "JStr ''# T''" ?u "request_headers None"]]
    by (simp add: content_type_def data_def now_serving cheerio_serving)
  have 4: "fst (extractDataFromUrl (serving (Some ''image/png'') (JStr ''PNG'')) ?u None io0)
     = Inr (Other ''image/png'' (JStr ''PNG'') ?u 1)"
    using variant_chosen_by_content_type
      [OF get_serving [of "Some ''image/png''" "JStr ''PNG''" ?u "request_headers None"]]
    by (simp add: content_type_def data_def now_serving cheerio_serving)
  have 5: "fst (extractDataFromUrl (serving None (JStr ''PNG'')) ?u None io0)
     = Inr (Other [] (JStr ''PNG'') ?u 1)"
    using variant_chosen_by_content_type
      [OF get_serving [of "None" "JStr ''PNG''" ?u "request_headers None"]]
    by (simp add: content_type_def data_def now_serving cheerio_serving)
  from 1 2 3 4 5 show ?thesis by blast
qed

text \<open>
  The claim as written fails twice. A \<^verbatim>\<open>text/html\<close> response whose body is \<^verbatim>\<open>null\<close>
  gives the \<^verbatim>\<open>error\<close> variant, cheerio throwing on it, so the declared type alone does
  not choose the variant. And a \<^verbatim>\<open>text/plain\<close> response whose raw body is the text
  \<^verbatim>\<open>123\<close> gives a \<^verbatim>\<open>text\<close> variant that carries the number 123, not the raw body.
\<close>

theorem variant_counterexample:
  "fst (extractDataFromUrl (serving (Some ''text/html'') JNull) (JStr ''http://t.test/'') None io0)
     = Inr (Error ''Cannot read properties of null (reading 'type')'' (JStr ''http://t.test/'') 1)
   \<and> fst (get (serving (Some ''text/plain'') (JNum 123)) (JStr ''http://t.test/'')
            (request_headers None) io0)
     = Inr \<lparr>resp_headers = [''content-type'' \<mapsto> ''text/plain''], raw = ''123'',
            parsed = Some (JNum 123)\<rparr>
   \<and> fst (extractDataFromUrl (serving (Some ''text/plain'') (JNum 123)) (JStr ''http://t.test/'') None io0)
     = Inr (Text (JNum 123) (JStr ''http://t.test/'') 1)"
  by (simp add: extractDataFromUrl_def try_extract_def get_serving classify_def
      content_type_def data_def now_serving cheerio_serving Let_def stringify_examples
      del: stringify.simps)


section \<open>The ingestion handlers\<close>

lemma outbound_now: "outbound (snd (now e s)) = outbound s"
  by (simp add: now_def split: prod.splits)

lemma outbound_classify: "outbound (snd (classify e u r s)) = outbound s"
  by (simp add: classify_def Let_def outbound_now split: prod.splits sum.splits)
     (auto simp: now_def split: prod.splits)

lemma outbound_get: "outbound (snd (get e u hs s)) = outbound s @ [(u, hs)]"
  by (simp add: get_def split: prod.splits)

lemma outbound_try_extract:
  assumes "js_string u = Some shown"
  shows "outbound (snd (try_extract e u token s)) = outbound s @ [(u, request_headers token)]"
proof (cases "get e u (request_headers token) s")
  case (Pair r s1)
  with outbound_get [of e u "request_headers token" s]
  have o: "outbound s1 = outbound s @ [(u, request_headers token)]" by simp
  show ?thesis
  proof (cases r)
    case (Inl m)
    with Pair o assms show ?thesis by (simp add: try_extract_def)
  next
    case (Inr resp)
    with Pair o assms outbound_classify [of e u resp s1] show ?thesis by (simp add: try_extract_def)
  qed
qed

lemma outbound_extractDataFromUrl:
  assumes "js_string u = Some shown"
  shows "outbound (snd (extractDataFromUrl e u token s)) = outbound s @ [(u, request_headers token)]"
proof (cases "try_extract e u token s")
  case (Pair r s1)
  with outbound_try_extract [OF assms, of e token s]
  have o: "outbound s1 = outbound s @ [(u, request_headers token)]" by simp
  show ?thesis
  proof (cases r)
    case (Inl m)
    with Pair extractDataFromUrl_caught [OF assms, of e token s m s1] o outbound_now [of e s1]
    show ?thesis by simp
  next
    case (Inr x)
    with Pair o show ?thesis by (simp add: extractDataFromUrl_def)
  qed
qed

text \<open>
  The loop over string URLs pushes what the extractor returns for them in turn, to the
  results of the request and to the extracted store alike.
\<close>

lemma extract_each_eq:
  "extract_all e token (map JStr us) s = (rs, s') \<Longrightarrow>
     \<exists>xs. rs = map Inr xs \<and> map url_of xs = map JStr us \<and>
          outbound s' = outbound s @ map (\<lambda>u. (JStr u, request_headers token)) us \<and>
          extract_each e token us acc srv s
            = (acc @ xs, srv\<lparr>extractedData := extractedData srv @ xs\<rparr>, s')"
proof (induction us arbitrary: acc srv s rs s')
  case Nil
  then show ?case by simp
next
  case (Cons u us)
  have j: "js_string (JStr u) = Some u" by simp
  from extractDataFromUrl_total [OF j, of e token s]
  obtain x s1 where x: "extractDataFromUrl e (JStr u) token s = (Inr x, s1)" "url_of x = JStr u"
    by blast
  obtain rs1 s2 where r: "extract_all e token (map JStr us) s1 = (rs1, s2)"
    by (cases "extract_all e token (map JStr us) s1")
  with Cons.prems x have e: "rs = Inr x # rs1" "s' = s2" by simp_all
  from Cons.IH [OF r, of "acc @ [x]" "srv\<lparr>extractedData := extractedData srv @ [x]\<rparr>"]
  obtain xs where xs: "rs1 = map Inr xs" "map url_of xs = map JStr us"
    "outbound s2 = outbound s1 @ map (\<lambda>u. (JStr u, request_headers token)) us"
    "extract_each e token us (acc @ [x]) (srv\<lparr>extractedData := extractedData srv @ [x]\<rparr>) s1
       = ((acc @ [x]) @ xs,
          srv\<lparr>extractedData := extractedData srv @ [x]\<rparr>
             \<lparr>extractedData := extractedData (srv\<lparr>extractedData := extractedData srv @ [x]\<rparr>) @ xs\<rparr>,
          s2)"
    by blast
  from x(1) outbound_extractDataFromUrl [OF j, of e token s]
  have o: "outbound s1 = outbound s @ [(JStr u, request_headers token)]" by simp
  have 1: "rs = map Inr (x # xs)" using e xs(1) by simp
  have 2: "map url_of (x # xs) = map JStr (u # us)" using x(2) xs(2) by simp
  have 3: "outbound s' = outbound s @ map (\<lambda>u. (JStr u, request_headers token)) (u # us)"
    using e o xs(3) by simp
  have 4: "extract_each e token (u # us) acc srv s
      = (acc @ (x # xs), srv\<lparr>extractedData := extractedData srv @ (x # xs)\<rparr>, s')"
    using x(1) xs(4) e by simp
  from 1 2 3 4 show ?case by blast
qed

lemma ingest_overflow:
  "urlsToExtract e req = Inl m \<Longrightarrow>
     ingest e msg token req srv s
       = (internal_error m,
          srv\<lparr>webhookData := webhookData srv @
             [webhookPayload req (fst (now e s)) (fst (now e (snd (now e s))))]\<rparr>,
          snd (now e (snd (now e s))))"
  by (simp add: ingest_def Let_def split: prod.splits)

lemma ingest_extracts:
  assumes "urlsToExtract e req = Inr us"
    and "extract_all e token (map JStr us) (snd (now e (snd (now e s)))) = (rs, s')"
  shows "\<exists>xs. rs = map Inr xs \<and> map url_of xs = map JStr us \<and>
          outbound s' = outbound s @ map (\<lambda>u. (JStr u, request_headers token)) us \<and>
          ingest e msg token req srv s
            = (\<lparr>status = 200, success = True, message = msg,
                payload = Accepted (toString (fst (now e s))) (fst (now e (snd (now e s))))
                            (length us) (if xs \<noteq> [] then Some xs else None)\<rparr>,
               srv\<lparr>webhookData := webhookData srv @
                      [webhookPayload req (fst (now e s)) (fst (now e (snd (now e s))))],
                    extractedData := extractedData srv @ xs\<rparr>,
               s')"
proof -
  obtain t1 s1 where n1: "now e s = (t1, s1)" by (cases "now e s")
  obtain t2 s2 where n2: "now e s1 = (t2, s2)" by (cases "now e s1")
  let ?srv1 = "srv\<lparr>webhookData := webhookData srv @ [webhookPayload req t1 t2]\<rparr>"
  from assms(2) n1 n2 have a: "extract_all e token (map JStr us) s2 = (rs, s')" by simp
  from extract_each_eq [OF a, of "[]" ?srv1]
  obtain xs where xs: "rs = map Inr xs" "map url_of xs = map JStr us"
    "outbound s' = outbound s2 @ map (\<lambda>u. (JStr u, request_headers token)) us"
    "extract_each e token us [] ?srv1 s2
       = ([] @ xs, ?srv1\<lparr>extractedData := extractedData ?srv1 @ xs\<rparr>, s')"
    by blast
  from n1 n2 outbound_now [of e s] outbound_now [of e s1] have "outbound s2 = outbound s" by simp
  with xs(3) have o: "outbound s' = outbound s @ map (\<lambda>u. (JStr u, request_headers token)) us"
    by simp
  have "ingest e msg token req srv s
      = (\<lparr>status = 200, success = True, message = msg,
          payload = Accepted (toString t1) t2 (length us) (if xs \<noteq> [] then Some xs else None)\<rparr>,
         srv\<lparr>webhookData := webhookData srv @ [webhookPayload req t1 t2],
              extractedData := extractedData srv @ xs\<rparr>, s')"
    using assms(1) n1 n2 xs(4) by (simp add: ingest_def Let_def)
  with n1 n2 xs(1,2) o show ?thesis by simp
qed


text \<open>
  C2. For a URL string the extractor always returns a result, and one for that URL: it
  never raises. When the GET is rejected, and when processing the response throws, the
  result is the \<^verbatim>\<open>error\<close> variant with the message of the failure. An ingestion
  request whose URLs have been discovered is answered 200 with \<open>success\<close>, on either
  route: what the extractor returns for the discovered URLs in turn, error results
  included, is appended to the extracted store in that order and is the result list of
  the response.
\<close>

theorem extraction_failure_is_an_error_result:
  "(\<exists>x s'. extractDataFromUrl e (JStr u) token s = (Inr x, s') \<and> url_of x = JStr u)
   \<and> (\<forall>m s1. get e (JStr u) (request_headers token) s = (Inl m, s1) \<longrightarrow>
        extractDataFromUrl e (JStr u) token s
          = (Inr (Error m (JStr u) (fst (now e s1))), snd (now e s1)))
   \<and> (\<forall>r s1 m s2. get e (JStr u) (request_headers token) s = (Inr r, s1) \<and>
        classify e (JStr u) r s1 = (Inl m, s2) \<longrightarrow>
        extractDataFromUrl e (JStr u) token s
          = (Inr (Error m (JStr u) (fst (now e s2))), snd (now e s2)))
   \<and> (\<forall>us rs s'. urlsToExtract e req = Inr us \<and>
        extract_all e None (map JStr us) (snd (now e (snd (now e s0)))) = (rs, s') \<longrightarrow>
        (\<exists>xs. rs = map Inr xs \<and>
           post_webhook_public e req srv s0
             = (\<lparr>status = 200, success = True, message = ''Public webhook received successfully'',
                 payload = Accepted (toString (fst (now e s0))) (fst (now e (snd (now e s0))))
                             (length us) (if xs \<noteq> [] then Some xs else None)\<rparr>,
                srv\<lparr>webhookData := webhookData srv @
                       [webhookPayload req (fst (now e s0)) (fst (now e (snd (now e s0))))],
                     extractedData := extractedData srv @ xs\<rparr>,
                s')))
   \<and> (\<forall>tok srv1 s1 us rs s'. validateWebhookToken e req srv s0 = (Inr tok, srv1, s1) \<and>
        urlsToExtract e req = Inr us \<and>
        extract_all e (Some tok) (map JStr us) (snd (now e (snd (now e s1)))) = (rs, s') \<longrightarrow>
        (\<exists>xs. rs = map Inr xs \<and>
           post_webhook e req srv s0
             = (\<lparr>status = 200, success = True, message = ''Webhook received successfully'',
                 payload = Accepted (toString (fst (now e s1))) (fst (now e (snd (now e s1))))
                             (length us) (if xs \<noteq> [] then Some xs else None)\<rparr>,
                srv1\<lparr>webhookData := webhookData srv1 @
                       [webhookPayload req (fst (now e s1)) (fst (now e (snd (now e s1))))],
                      extractedData := extractedData srv1 @ xs\<rparr>,
                s')))"
proof -
  have j: "js_string (JStr u) = Some u" by simp
  have 1: "\<exists>x s'. extractDataFromUrl e (JStr u) token s = (Inr x, s') \<and> url_of x = JStr u"
    using extractDataFromUrl_total [OF j] .
  have 2: "\<forall>m s1. get e (JStr u) (request_headers token) s = (Inl m, s1) \<longrightarrow>
        extractDataFromUrl e (JStr u) token s
          = (Inr (Error m (JStr u) (fst (now e s1))), snd (now e s1))"
    using try_extract_get_fails [OF j] extractDataFromUrl_caught [OF j] by blast
  have 3: "\<forall>r s1 m s2. get e (JStr u) (request_headers token) s = (Inr r, s1) \<and>
        classify e (JStr u) r s1 = (Inl m, s2) \<longrightarrow>
        extractDataFromUrl e (JStr u) token s
          = (Inr (Error m (JStr u) (fst (now e s2))), snd (now e s2))"
    using extractDataFromUrl_processing_fails [OF j] by blast
  have 4: "\<forall>us rs s'. urlsToExtract e req = Inr us \<and>
        extract_all e None (map JStr us) (snd (now e (snd (now e s0)))) = (rs, s') \<longrightarrow>
        (\<exists>xs. rs = map Inr xs \<and>
           post_webhook_public e req srv s0
             = (\<lparr>status = 200, success = True, message = ''Public webhook received successfully'',
                 payload = Accepted (toString (fst (now e s0))) (fst (now e (snd (now e s0))))
                             (length us) (if xs \<noteq> [] then Some xs else None)\<rparr>,
                srv\<lparr>webhookData := webhookData srv @
                       [webhookPayload req (fst (now e s0)) (fst (now e (snd (now e s0))))],
                     extractedData := extractedData srv @ xs\<rparr>,
                s'))"
  proof (intro allI impI)
    fix us rs s'
    assume a: "urlsToExtract e req = Inr us \<and>
        extract_all e None (map JStr us) (snd (now e (snd (now e s0)))) = (rs, s')"
    from ingest_extracts [of e req us None s0 rs s' "''Public webhook received successfully''" srv] a
    show "\<exists>xs. rs = map Inr xs \<and>
           post_webhook_public e req srv s0
             = (\<lparr>status = 200, success = True, message = ''Public webhook received successfully'',
                 payload = Accepted (toString (fst (now e s0))) (fst (now e (snd (now e s0))))
                             (length us) (if xs \<noteq> [] then Some xs else None)\<rparr>,
                srv\<lparr>webhookData := webhookData srv @
                       [webhookPayload req (fst (now e s0)) (fst (now e (snd (now e s0))))],
                     extractedData := extractedData srv @ xs\<rparr>,
                s')"
      unfolding post_webhook_public_def by blast
  qed
  have 5: "\<forall>tok srv1 s1 us rs s'. validateWebhookToken e req srv s0 = (Inr tok, srv1, s1) \<and>
        urlsToExtract e req = Inr us \<and>
        extract_all e (Some tok) (map JStr us) (snd (now e (snd (now e s1)))) = (rs, s') \<longrightarrow>
        (\<exists>xs. rs = map Inr xs \<and>
           post_webhook e req srv s0
             = (\<lparr>status = 200, success = True, message = ''Webhook received successfully'',
                 payload = Accepted (toString (fst (now e s1))) (fst (now e (snd (now e s1))))
                             (length us) (if xs \<noteq> [] then Some xs else None)\<rparr>,
                srv1\<lparr>webhookData := webhookData srv1 @
                       [webhookPayload req (fst (now e s1)) (fst (now e (snd (now e s1))))],
                      extractedData := extractedData srv1 @ xs\<rparr>,
                s'))"
  proof (intro allI impI)
    fix tok srv1 s1 us rs s'
    assume a: "validateWebhookToken e req srv s0 = (Inr tok, srv1, s1) \<and>
        urlsToExtract e req = Inr us \<and>
        extract_all e (Some tok) (map JStr us) (snd (now e (snd (now e s1)))) = (rs, s')"
    then have p: "post_webhook e req srv s0
        = ingest e ''Webhook received successfully'' (Some tok) req srv1 s1"
      by (simp add: post_webhook_def)
    from ingest_extracts [of e req us "Some tok" s1 rs s' "''Webhook received successfully''" srv1] a
    show "\<exists>xs. rs = map Inr xs \<and>
           post_webhook e req srv s0
             = (\<lparr>status = 200, success = True, message = ''Webhook received successfully'',
                 payload = Accepted (toString (fst (now e s1))) (fst (now e (snd (now e s1))))
                             (length us) (if xs \<noteq> [] then Some xs else None)\<rparr>,
                srv1\<lparr>webhookData := webhookData srv1 @
                       [webhookPayload req (fst (now e s1)) (fst (now e (snd (now e s1))))],
                      extractedData := extractedData srv1 @ xs\<rparr>,
                s')"
      unfolding p by blast
  qed
  from 1 2 3 4 5 show ?thesis by blast
qed

lemma toString_zero: "toString 0 = ''0''"
  by code_simp

lemma match_all_example:
  "match_all (stringify (JObj [(''a'', JStr ''https://x.test/1''),
                               (''b'', JStr ''see https://x.test/2 too'')]))
     = [''https://x.test/1'', ''https://x.test/2'']"
  by code_simp

lemma urlsToExtract_example:
  "urlsToExtract example_env
     (example_request\<lparr>body := Some (JObj [(''a'', JStr ''https://x.test/1''),
                               (''b'', JStr ''see https://x.test/2 too'')])\<rparr>)
     = Inr [''https://x.test/1'', ''https://x.test/2'']"
  by (simp add: urlsToExtract_def foundUrls_def example_request_def match_all_example example_env_def
      del: stringify.simps match_all.simps)

lemma now_example: "now example_env s = (world s, s\<lparr>world := Suc (world s)\<rparr>)"
  by (simp add: now_def example_env_def)

lemma get_example_refused:
  "u \<noteq> JStr ''https://x.test/2'' \<Longrightarrow>
     get example_env u hs s
       = (Inl ''connect ECONNREFUSED'',
          s\<lparr>world := Suc (world s), outbound := outbound s @ [(u, hs)]\<rparr>)"
  by (simp add: get_def example_env_def)

lemma get_example_served:
  "get example_env (JStr ''https://x.test/2'') hs s
     = (Inr \<lparr>resp_headers = [''content-type'' \<mapsto> ''application/json''],
              raw = ''{'' @ [CHR 0x22] @ ''k'' @ [CHR 0x22] @ '':1}'',
              parsed = Some (JObj [(''k'', JNum 1)])\<rparr>,
        s\<lparr>world := Suc (world s), outbound := outbound s @ [(JStr ''https://x.test/2'', hs)]\<rparr>)"
  by (simp add: get_def example_env_def)

lemma extract_example_refused:
  "extractDataFromUrl example_env (JStr ''https://x.test/1'') token s
     = (Inr (Error ''connect ECONNREFUSED'' (JStr ''https://x.test/1'') (Suc (world s))),
        s\<lparr>world := Suc (Suc (world s)),
          outbound := outbound s @ [(JStr ''https://x.test/1'', request_headers token)]\<rparr>)"
  by (simp add: extractDataFromUrl_def try_extract_def get_example_refused now_example)

lemma extract_example_served:
  "extractDataFromUrl example_env (JStr ''https://x.test/2'') token s
     = (Inr (Json (JObj [(''k'', JNum 1)]) (JStr ''https://x.test/2'') (Suc (world s))),
        s\<lparr>world := Suc (Suc (world s)),
          outbound := outbound s @ [(JStr ''https://x.test/2'', request_headers token)]\<rparr>)"
  by (simp add: extractDataFromUrl_def try_extract_def get_example_served now_example
      classify_def content_type_def data_def Let_def)

lemma extract_all_example:
  "extract_all example_env token [JStr ''https://x.test/1'', JStr ''https://x.test/2'']
     \<lparr>world = 2, outbound = []\<rparr>
   = ([Inr (Error ''connect ECONNREFUSED'' (JStr ''https://x.test/1'') 3),
       Inr (Json (JObj [(''k'', JNum 1)]) (JStr ''https://x.test/2'') 5)],
      \<lparr>world = 6,
       outbound = [(JStr ''https://x.test/1'', request_headers token),
                   (JStr ''https://x.test/2'', request_headers token)]\<rparr>)"
  by (simp add: extract_example_refused extract_example_served eval_nat_numeral)

theorem extraction_failure_is_an_error_result_witness:
  "post_webhook_public example_env
     (example_request\<lparr>body := Some (JObj [(''a'', JStr ''https://x.test/1''),
                               (''b'', JStr ''see https://x.test/2 too'')])\<rparr>)
     (initial_server 0) io0
   = (\<lparr>status = 200, success = True, message = ''Public webhook received successfully'',
       payload = Accepted ''0'' 1 2
         (Some [Error ''connect ECONNREFUSED'' (JStr ''https://x.test/1'') 3,
                Json (JObj [(''k'', JNum 1)]) (JStr ''https://x.test/2'') 5])\<rparr>,
      \<lparr>webhookData =
         [webhookPayload (example_request\<lparr>body := Some (JObj [(''a'', JStr ''https://x.test/1''),
                               (''b'', JStr ''see https://x.test/2 too'')])\<rparr>) 0 1],
       extractedData =
         [Error ''connect ECONNREFUSED'' (JStr ''https://x.test/1'') 3,
          Json (JObj [(''k'', JNum 1)]) (JStr ''https://x.test/2'') 5],
       webhookTokens = initial_tokens 0\<rparr>,
      \<lparr>world = 6,
       outbound = [(JStr ''https://x.test/1'', request_headers None),
                   (JStr ''https://x.test/2'', request_headers None)]\<rparr>)"
proof -
  let ?req = "example_request\<lparr>body := Some (JObj [(''a'', JStr ''https://x.test/1''),
                               (''b'', JStr ''see https://x.test/2 too'')])\<rparr>"
  let ?rs = "[Inr (Error ''connect ECONNREFUSED'' (JStr ''https://x.test/1'') 3),
       Inr (Json (JObj [(''k'', JNum 1)]) (JStr ''https://x.test/2'') 5)]
       :: (string + extracted) list"
  let ?s' = "\<lparr>world = 6,
       outbound = [(JStr ''https://x.test/1'', request_headers None),
                   (JStr ''https://x.test/2'', request_headers None)]\<rparr> :: nat io"
  have n: "snd (now example_env (snd (now example_env io0))) = \<lparr>world = 2, outbound = []\<rparr>"
    "fst (now example_env io0) = 0" "fst (now example_env (snd (now example_env io0))) = 1"
    by (simp_all add: now_example io0_def)
  have a: "urlsToExtract example_env ?req = Inr [''https://x.test/1'', ''https://x.test/2''] \<and>
      extract_all example_env None (map JStr [''https://x.test/1'', ''https://x.test/2''])
        (snd (now example_env (snd (now example_env io0)))) = (?rs, ?s')"
    using urlsToExtract_example extract_all_example by (simp add: n)
  from extraction_failure_is_an_error_result
    [of example_env "[]" None io0 ?req io0 "initial_server 0",
      THEN conjunct2, THEN conjunct2, THEN conjunct2, THEN conjunct1, rule_format, OF a]
  obtain xs where xs: "?rs = map Inr xs"
    "post_webhook_public example_env ?req (initial_server 0) io0
       = (\<lparr>status = 200, success = True, message = ''Public webhook received successfully'',
           payload = Accepted (toString (fst (now example_env io0)))
                       (fst (now example_env (snd (now example_env io0))))
                       (length [''https://x.test/1'', ''https://x.test/2''])
                       (if xs \<noteq> [] then Some xs else None)\<rparr>,
          (initial_server 0)\<lparr>webhookData := webhookData (initial_server 0) @
                 [webhookPayload ?req (fst (now example_env io0))
                    (fst (now example_env (snd (now example_env io0))))],
               extractedData := extractedData (initial_server 0) @ xs\<rparr>,
          ?s')"
    by (elim exE conjE) (rule that; assumption)
  from xs(1) have "xs = [Error ''connect ECONNREFUSED'' (JStr ''https://x.test/1'') 3,
                Json (JObj [(''k'', JNum 1)]) (JStr ''https://x.test/2'') 5]"
    by auto
  with xs(2) show ?thesis
    by (simp add: n initial_server_def toString_zero)
qed


lemma outbound_ingest:
  "outbound (snd (snd (ingest e msg token req srv s)))
     = outbound s @ map (\<lambda>u. (JStr u, request_headers token))
         (case urlsToExtract e req of Inl m \<Rightarrow> [] | Inr us \<Rightarrow> us)"
proof (cases "urlsToExtract e req")
  case (Inl m)
  from ingest_overflow [OF Inl, of msg token srv s] outbound_now [of e s]
    outbound_now [of e "snd (now e s)"] Inl
  show ?thesis by simp
next
  case (Inr us)
  obtain rs s' where a: "extract_all e token (map JStr us) (snd (now e (snd (now e s)))) = (rs, s')"
    by (cases "extract_all e token (map JStr us) (snd (now e (snd (now e s))))")
  from ingest_extracts [OF Inr a, of msg srv] obtain xs where
    "outbound s' = outbound s @ map (\<lambda>u. (JStr u, request_headers token)) us"
    "snd (snd (ingest e msg token req srv s)) = s'"
    by auto
  with Inr show ?thesis by simp
qed

lemma outbound_post_webhook_public:
  "outbound (snd (snd (post_webhook_public e req srv s)))
     = outbound s @ map (\<lambda>u. (JStr u, [(''User-Agent'', user_agent)]))
         (case urlsToExtract e req of Inl m \<Rightarrow> [] | Inr us \<Rightarrow> us)"
  using outbound_ingest [of e _ None req srv s]
  by (simp add: post_webhook_public_def request_headers_def)

lemma urlsToExtract_cong:
  "body req' = body req \<Longrightarrow> headers req' ''referer'' = headers req ''referer'' \<Longrightarrow>
     urlsToExtract e req' = urlsToExtract e req"
  unfolding urlsToExtract_def foundUrls_def by simp

text \<open>
  C6. The GET requests that \<^verbatim>\<open>POST /webhook-public\<close> sends are one per discovered URL
  (none when discovery throws and the handler answers 500), each with the
  \<^verbatim>\<open>User-Agent\<close> header and nothing else: no \<^verbatim>\<open>Authorization\<close> and no \<^verbatim>\<open>X-API-Key\<close>
  header. Two requests with the same body and the same \<^verbatim>\<open>referer\<close> header, whatever
  their other headers and their query parameters are, and so whatever credential either
  of them carries, make the handler send the same requests.
\<close>

theorem public_webhook_sends_no_credential:
  "outbound (snd (snd (post_webhook_public e req srv s)))
     = outbound s @ map (\<lambda>u. (JStr u, [(''User-Agent'', user_agent)]))
         (case urlsToExtract e req of Inl m \<Rightarrow> [] | Inr us \<Rightarrow> us)
   \<and> (body req' = body req \<and> headers req' ''referer'' = headers req ''referer'' \<longrightarrow>
        outbound (snd (snd (post_webhook_public e req' srv s)))
          = outbound (snd (snd (post_webhook_public e req srv s))))"
  using outbound_post_webhook_public [of e req srv s] outbound_post_webhook_public [of e req' srv s]
    urlsToExtract_cong [of req' req e]
  by simp

theorem public_webhook_sends_no_credential_witness:
  "outbound (snd (snd (post_webhook_public example_env
      (example_request\<lparr>headers := [''x-webhook-token'' \<mapsto> defaultToken,
                                     ''authorization'' \<mapsto> ''Bearer '' @ defaultToken],
                        body := Some (JObj [(''a'', JStr ''https://x.test/1''),
                                            (''b'', JStr ''see https://x.test/2 too'')]),
                        query := [''token'' \<mapsto> JStr defaultToken]\<rparr>)
      (initial_server 0) io0)))
   = [(JStr ''https://x.test/1'', [(''User-Agent'', user_agent)]),
      (JStr ''https://x.test/2'', [(''User-Agent'', user_agent)])]"
proof -
  let ?b = "Some (JObj [(''a'', JStr ''https://x.test/1''), (''b'', JStr ''see https://x.test/2 too'')])"
  let ?req = "example_request\<lparr>body := ?b\<rparr>"
  let ?req' = "example_request\<lparr>headers := [''x-webhook-token'' \<mapsto> defaultToken,
                                     ''authorization'' \<mapsto> ''Bearer '' @ defaultToken],
                        body := ?b, query := [''token'' \<mapsto> JStr defaultToken]\<rparr>"
  note t = public_webhook_sends_no_credential [of example_env ?req "initial_server 0" io0 ?req']
  have "body ?req' = body ?req \<and> headers ?req' ''referer'' = headers ?req ''referer''"
    by (simp add: example_request_def)
  with t have "outbound (snd (snd (post_webhook_public example_env ?req' (initial_server 0) io0)))
      = outbound io0 @ map (\<lambda>u. (JStr u, [(''User-Agent'', user_agent)]))
          (case urlsToExtract example_env ?req of Inl m \<Rightarrow> [] | Inr us \<Rightarrow> us)"
    by presburger
  then show ?thesis by (simp add: urlsToExtract_example io0_def)
qed

lemma ingest_record:
  assumes "ingest e msg token req srv s = (resp, srv', s')"
  shows "webhookData srv' = webhookData srv @
           [webhookPayload req (fst (now e s)) (fst (now e (snd (now e s))))] \<and>
         webhookTokens srv' = webhookTokens srv"
proof (cases "urlsToExtract e req")
  case (Inl m)
  from ingest_overflow [OF Inl, of msg token srv s] assms show ?thesis by auto
next
  case (Inr us)
  obtain rs s2 where a: "extract_all e token (map JStr us) (snd (now e (snd (now e s)))) = (rs, s2)"
    by (cases "extract_all e token (map JStr us) (snd (now e (snd (now e s))))")
  from ingest_extracts [OF Inr a, of msg srv] assms show ?thesis by auto
qed


section \<open>Batch extraction\<close>

lemma toString_one: "toString (Suc 0) = ''1''"
  by code_simp

text \<open>
  C5 does not hold of the code. An authorized \<^verbatim>\<open>POST /extract-batch\<close> with the one URL
  \<^verbatim>\<open>http://t.test/n\<close>, which serves the body \<^verbatim>\<open>123\<close> as \<^verbatim>\<open>text/plain\<close>, is answered
  with two results: the \<^verbatim>\<open>text\<close> result, pushed before the printing block throws on
  \<^verbatim>\<open>content.substring\<close>, and the error result that the loop's \<^verbatim>\<open>catch\<close> pushes
  after it. The extracted store receives the first of them only.
\<close>

theorem batch_pushes_a_second_result:
  "post_extract_batch (serving (Some ''text/plain'') (JNum 123))
      (example_request\<lparr>headers := [''x-webhook-token'' \<mapsto> defaultToken],
                        body := Some (JObj [(''urls'', JArr [JStr ''http://t.test/n''])])\<rparr>)
      (initial_server 0) io0
   = (\<lparr>status = 200, success = True, message = ''Extracted data from 1 URLs'',
       payload = Results [Text (JNum 123) (JStr ''http://t.test/n'') 2,
                          Error ''extractedContent.content.substring is not a function''
                            (JStr ''http://t.test/n'') 3]\<rparr>,
      \<lparr>webhookData = [], extractedData = [Text (JNum 123) (JStr ''http://t.test/n'') 2],
       webhookTokens = [defaultToken \<mapsto>
         \<lparr>name = JStr ''Default Token'', created = 0, lastUsed = Some 0, usageCount = 1\<rparr>]\<rparr>,
      \<lparr>world = 4,
       outbound = [(JStr ''http://t.test/n'',
                    [(''User-Agent'', user_agent), (''Authorization'', ''Bearer '' @ defaultToken),
                     (''X-API-Key'', defaultToken)])]\<rparr>)"
  by (simp add: post_extract_batch_def validateWebhookToken_def candidate_token_def js_or_def
      example_request_def initial_server_def initial_tokens_def defaultToken_def io0_def
      now_def get_def serving_def extract_batch_def batch_step_def batch_catch_def
      extractDataFromUrl_def try_extract_def classify_def content_type_def data_def
      request_headers_def Let_def toString_one
      del: toString.simps stringify.simps)


section \<open>Decimal text\<close>

lemma digit_value_digit: "d < 10 \<Longrightarrow> digit_value (digit d) = d"
  by (simp add: digit_value_def digit_def)

lemma id_value_snoc: "id_value (s @ [c]) = 10 * id_value s + digit_value c"
  by (simp add: id_value_def)

lemma id_value_toString: "id_value (toString n) = n"
proof (induction n rule: toString.induct)
  case (1 n)
  show ?case
  proof (cases "n < 10")
    case True
    then show ?thesis by (simp add: toString.simps [of n] id_value_def digit_value_digit)
  next
    case False
    with 1 have "id_value (toString (n div 10)) = n div 10" by simp
    with False show ?thesis
      by (simp add: toString.simps [of n] id_value_snoc digit_value_digit)
  qed
qed

lemma toString_inject: "toString m = toString n \<longleftrightarrow> m = n"
  by (metis id_value_toString)

lemma toString_not_Nil: "toString n \<noteq> []"
  by (subst toString.simps) simp

lemma is_digit_digit: "d < 10 \<Longrightarrow> is_digit (digit d)"
  by (simp add: is_digit_def digit_def)

lemma not_digit_examples: "\<not> is_digit CHR ''-''" "\<not> is_digit CHR ''s''"
  by (simp_all add: is_digit_def)

lemma toString_digits: "\<forall>c\<in>set (toString n). is_digit c"
proof (induction n rule: toString.induct)
  case (1 n)
  show ?case
  proof (cases "n < 10")
    case True
    then show ?thesis by (simp add: toString.simps [of n] is_digit_digit)
  next
    case False
    with 1 have "\<forall>c\<in>set (toString (n div 10)). is_digit c" by simp
    with False show ?thesis
      by (simp add: toString.simps [of n] is_digit_digit)
  qed
qed


lemma split_at_dash:
  assumes "xs @ CHR ''-'' # ys = xs' @ CHR ''-'' # ys'"
    and "\<forall>c\<in>set xs. is_digit c" and "\<forall>c\<in>set xs'. is_digit c"
  shows "xs = xs' \<and> ys = ys'"
proof -
  from assms(2,3) not_digit_examples(1) have "CHR ''-'' \<notin> set xs" "CHR ''-'' \<notin> set xs'" by auto
  then have "takeWhile (\<lambda>c. c \<noteq> CHR ''-'') (xs @ CHR ''-'' # ys) = xs"
    "takeWhile (\<lambda>c. c \<noteq> CHR ''-'') (xs' @ CHR ''-'' # ys') = xs'"
    by (auto simp: takeWhile_tail)
  with assms(1) have "xs = xs'" by simp
  with assms(1) show ?thesis by simp
qed

lemma newToken_inject: "newToken t r = newToken t' r' \<longleftrightarrow> t = t' \<and> r = r'"
proof
  assume "newToken t r = newToken t' r'"
  then have "toString t @ CHR ''-'' # r = toString t' @ CHR ''-'' # r'"
    by (simp add: newToken_def)
  from split_at_dash [OF this toString_digits toString_digits]
  show "t = t' \<and> r = r'" by (simp add: toString_inject)
qed simp

lemma newToken_not_default: "newToken t r \<noteq> defaultToken"
proof
  assume "newToken t r = defaultToken"
  then have e: "toString t @ CHR ''-'' # r = ''secret-2024''"
    by (simp add: newToken_def defaultToken_def)
  obtain c cs where c: "toString t = c # cs" using toString_not_Nil [of t] by (cases "toString t") auto
  with toString_digits [of t] have "is_digit c" by simp
  moreover from e c have "c = CHR ''s''" by simp
  ultimately show False using not_digit_examples(2) by simp
qed


section \<open>Record ids\<close>

text \<open>
  C7, as the code has it. The id of the record that an ingestion handler appends is the
  decimal text of the clock reading taken when the handler starts (\<^verbatim>\<open>Date.now()\<close>).
  The decimal text determines the reading, so two ids are equal exactly when the two
  readings are, and one id is the greater number exactly when its reading is greater.
\<close>

theorem record_id_is_clock_reading:
  "(\<forall>msg tok resp srv' s'. ingest e msg tok req srv s = (resp, srv', s') \<longrightarrow>
      (\<exists>w. webhookData srv' = webhookData srv @ [w] \<and> wh_id w = toString (fst (now e s))))
   \<and> (toString m = toString n \<longleftrightarrow> m = n)
   \<and> (id_value (toString m) < id_value (toString n) \<longleftrightarrow> m < n)"
proof -
  have "\<forall>msg tok resp srv' s'. ingest e msg tok req srv s = (resp, srv', s') \<longrightarrow>
      (\<exists>w. webhookData srv' = webhookData srv @ [w] \<and> wh_id w = toString (fst (now e s)))"
  proof (intro allI impI)
    fix msg tok resp srv' s'
    assume "ingest e msg tok req srv s = (resp, srv', s')"
    from ingest_record [OF this]
    have "webhookData srv' = webhookData srv @
        [webhookPayload req (fst (now e s)) (fst (now e (snd (now e s))))]" by simp
    moreover have "wh_id (webhookPayload req (fst (now e s)) (fst (now e (snd (now e s)))))
        = toString (fst (now e s))" by (simp add: webhookPayload_def)
    ultimately
    show "\<exists>w. webhookData srv' = webhookData srv @ [w] \<and> wh_id w = toString (fst (now e s))"
      by blast
  qed
  then show ?thesis by (simp add: toString_inject id_value_toString)
qed

lemma toString_1024: "toString 1024 = ''1024''"
  by code_simp

theorem record_id_is_clock_reading_witness:
  "map wh_id (webhookData (fst (snd (post_webhook_public example_env example_request
       (initial_server 0) \<lparr>world = 1024, outbound = []\<rparr>)))) = [''1024'']"
proof -
  let ?s = "\<lparr>world = 1024, outbound = []\<rparr> :: nat io"
  obtain resp srv' s' where p:
    "ingest example_env ''Public webhook received successfully'' None example_request
       (initial_server 0) ?s = (resp, srv', s')"
    by (cases "ingest example_env ''Public webhook received successfully'' None example_request
       (initial_server 0) ?s")
  from record_id_is_clock_reading [of example_env example_request "initial_server 0" ?s 0 0,
      THEN conjunct1, rule_format, OF p]
  obtain w where "webhookData srv' = webhookData (initial_server 0) @ [w]"
    "wh_id w = toString (fst (now example_env ?s))" by blast
  then have "map wh_id (webhookData srv') = [''1024'']"
    by (simp add: initial_server_def now_def example_env_def toString_1024)
  with p show ?thesis by (simp add: post_webhook_public_def)
qed

lemma frozen_public:
  "post_webhook_public frozen_env example_request srv io0
     = (\<lparr>status = 200, success = True, message = ''Public webhook received successfully'',
         payload = Accepted ''1024'' 1024 0 None\<rparr>,
        srv\<lparr>webhookData := webhookData srv @
          [\<lparr>wh_id = ''1024'', wh_timestamp = 1024, wh_headers = Map.empty, wh_body = None,
            wh_query = Map.empty, wh_method = ''POST'', wh_url = ''/webhook'',
            wh_ip = Some ''127.0.0.1''\<rparr>]\<rparr>,
        io0)"
  by (simp add: post_webhook_public_def ingest_def now_def frozen_env_def io0_def
      example_request_def urlsToExtract_def foundUrls_def webhookPayload_def Let_def toString_1024)

text \<open>
  The claim as written fails: two requests that arrive within one millisecond, here two
  public ingestions under a clock that shows 1024 both times, get the same id.
\<close>

theorem same_millisecond_same_id_counterexample:
  "map wh_id (webhookData (fst (snd
      (post_webhook_public frozen_env example_request
         (fst (snd (post_webhook_public frozen_env example_request (initial_server 0) io0)))
         (snd (snd (post_webhook_public frozen_env example_request (initial_server 0) io0)))))))
   = [''1024'', ''1024'']"
  unfolding frozen_public snd_conv fst_conv by (simp add: initial_server_def)


section \<open>Token management\<close>

lemma dom_validateWebhookToken:
  "validateWebhookToken e req srv s = (r, srv', s') \<Longrightarrow>
     dom (webhookTokens srv') = dom (webhookTokens srv)"
proof (cases r)
  case (Inl a)
  assume "validateWebhookToken e req srv s = (r, srv', s')"
  with Inl validateWebhookToken_Inl [of e req srv s a srv' s'] show ?thesis by simp
next
  case (Inr t)
  assume "validateWebhookToken e req srv s = (r, srv', s')"
  with Inr have "validateWebhookToken e req srv s = (Inr t, srv', s')" by simp
  then obtain d where "webhookTokens srv t = Some d"
    "srv' = srv\<lparr>webhookTokens := (webhookTokens srv)
       (t \<mapsto> d\<lparr>lastUsed := Some (fst (now e s)), usageCount := usageCount d + 1\<rparr>)\<rparr>"
    unfolding validateWebhookToken_Inr_iff by blast
  then show ?thesis by (auto split: if_splits)
qed

lemma batch_catch_tokens:
  "batch_catch e u m results srv s = (r, srv', s') \<Longrightarrow> webhookTokens srv' = webhookTokens srv"
  by (auto simp: batch_catch_def split: prod.splits option.splits)

lemma batch_step_tokens:
  "batch_step e token u results srv s = (r, srv', s') \<Longrightarrow> webhookTokens srv' = webhookTokens srv"
  by (auto simp: batch_step_def Let_def split: prod.splits sum.splits option.splits
      dest!: batch_catch_tokens)

lemma batch_each_tokens:
  "batch_each e token us acc srv s = (res, srv', s') \<Longrightarrow> webhookTokens srv' = webhookTokens srv"
proof (induction us arbitrary: acc srv s)
  case Nil
  then show ?case by simp
next
  case (Cons u us)
  obtain r srv1 s1 where st: "batch_step e token u acc srv s = (r, srv1, s1)"
    by (cases "batch_step e token u acc srv s")
  from batch_step_tokens [OF st] have t: "webhookTokens srv1 = webhookTokens srv" .
  show ?case
  proof (cases r)
    case (Inl m)
    with st Cons.prems have "srv' = srv1" by simp
    with t show ?thesis by simp
  next
    case (Inr acc')
    with st Cons.prems have "batch_each e token us acc' srv1 s1 = (res, srv', s')" by simp
    from Cons.IH [OF this] t show ?thesis by simp
  qed
qed

lemma extract_batch_tokens:
  "extract_batch e token req srv s = (resp, srv', s') \<Longrightarrow> webhookTokens srv' = webhookTokens srv"
  by (auto simp: extract_batch_def split: sum.splits option.splits json.splits prod.splits
      dest: batch_each_tokens)

lemma ingest_tokens:
  "ingest e msg token req srv s = (resp, srv', s') \<Longrightarrow> webhookTokens srv' = webhookTokens srv"
  using ingest_record by blast

lemma post_tokens_created:
  assumes "destructure (body req) ''name'' = Inr nm"
    and "post_tokens e production req srv s = (resp, srv', s')"
  shows "\<exists>shown c. status resp = 200 \<and>
          payload resp = Created (newToken (fst (now e s)) (fst (random e (snd (now e s))))) shown \<and>
          webhookTokens srv' = (webhookTokens srv)
            (newToken (fst (now e s)) (fst (random e (snd (now e s)))) \<mapsto>
               \<lparr>name = shown, created = c, lastUsed = None, usageCount = 0\<rparr>)"
proof -
  obtain t s1 where n1: "now e s = (t, s1)" by (cases "now e s")
  obtain r s2 where n2: "random e s1 = (r, s2)" by (cases "random e s1")
  obtain c s3 where n3: "now e s2 = (c, s3)" by (cases "now e s2")
  from assms n1 n2 n3 show ?thesis
    by (simp add: post_tokens_def Let_def) auto
qed

lemma dom_post_tokens:
  "post_tokens e production req srv s = (resp, srv', s') \<Longrightarrow>
     dom (webhookTokens srv') \<subseteq> dom (webhookTokens srv) \<union> {k. \<exists>t r. k = newToken t r}"
proof (cases "destructure (body req) ''name''")
  case (Inl m)
  assume "post_tokens e production req srv s = (resp, srv', s')"
  with Inl show ?thesis by (simp add: post_tokens_def)
next
  case (Inr nm)
  assume "post_tokens e production req srv s = (resp, srv', s')"
  from post_tokens_created [OF Inr this] show ?thesis by auto
qed

lemma dom_delete_token:
  "delete_token token srv = (resp, srv') \<Longrightarrow> dom (webhookTokens srv') \<subseteq> dom (webhookTokens srv)"
  by (auto simp: delete_token_def split: if_splits)

lemma reachable_tokens:
  "reachable e srv \<Longrightarrow> \<forall>k\<in>dom (webhookTokens srv). k = defaultToken \<or> (\<exists>t r. k = newToken t r)"
proof (induction rule: reachable.induct)
  case (start t0)
  then show ?case by (auto simp: initial_server_def initial_tokens_def split: if_splits)
next
  case (gate srv req s r srv' s')
  from dom_validateWebhookToken [OF gate.hyps(2)] gate.IH show ?case by simp
next
  case (webhook srv req s resp srv' s')
  obtain g srv1 s1 where g: "validateWebhookToken e req srv s = (g, srv1, s1)"
    by (cases "validateWebhookToken e req srv s")
  from dom_validateWebhookToken [OF g] webhook.IH
  have 1: "\<forall>k\<in>dom (webhookTokens srv1). k = defaultToken \<or> (\<exists>t r. k = newToken t r)" by simp
  show ?case
  proof (cases g)
    case (Inl a)
    with g webhook.hyps(2) have "srv' = srv1" by (simp add: post_webhook_def)
    with 1 show ?thesis by simp
  next
    case (Inr tok)
    with g webhook.hyps(2) have
      "ingest e ''Webhook received successfully'' (Some tok) req srv1 s1 = (resp, srv', s')"
      by (simp add: post_webhook_def)
    from ingest_tokens [OF this] 1 show ?thesis by simp
  qed
next
  case (webhook_public srv req s resp srv' s')
  then have "ingest e ''Public webhook received successfully'' None req srv s = (resp, srv', s')"
    by (simp add: post_webhook_public_def)
  from ingest_tokens [OF this] webhook_public.IH show ?case by simp
next
  case (batch srv req s resp srv' s')
  obtain g srv1 s1 where g: "validateWebhookToken e req srv s = (g, srv1, s1)"
    by (cases "validateWebhookToken e req srv s")
  from dom_validateWebhookToken [OF g] batch.IH
  have 1: "\<forall>k\<in>dom (webhookTokens srv1). k = defaultToken \<or> (\<exists>t r. k = newToken t r)" by simp
  show ?case
  proof (cases g)
    case (Inl a)
    with g batch.hyps(2) have "srv' = srv1" by (simp add: post_extract_batch_def)
    with 1 show ?thesis by simp
  next
    case (Inr tok)
    with g batch.hyps(2) have "extract_batch e tok req srv1 s1 = (resp, srv', s')"
      by (simp add: post_extract_batch_def)
    from extract_batch_tokens [OF this] 1 show ?thesis by simp
  qed
next
  case (create srv production req s resp srv' s')
  from dom_post_tokens [OF create.hyps(2)] create.IH show ?case by blast
next
  case (delete srv token resp srv')
  from dom_delete_token [OF delete.hyps(2)] delete.IH show ?case by blast
qed

text \<open>
  C8, as the code has it. In every state the process can reach, a key of the token store
  is the fixed text \<^verbatim>\<open>webhook-secret-2024\<close>, which is there from the start, or a text
  \<^verbatim>\<open>webhook-\<close>, clock reading, \<^verbatim>\<open>-\<close>, random text that token creation made. Token
  creation returns the text it made from the clock and the random generator and stores
  it with a zero counter and no last use. The text determines the reading and the random
  text and is never the default token; the store is not consulted when it is made.
\<close>

theorem tokens_are_default_or_generated:
  "(reachable e st \<longrightarrow>
      (\<forall>k\<in>dom (webhookTokens st). k = defaultToken \<or> (\<exists>t r. k = newToken t r)))
   \<and> defaultToken \<in> dom (webhookTokens (initial_server t0))
   \<and> (\<forall>nm resp srv' s'. destructure (body req) ''name'' = Inr nm \<and>
         post_tokens e production req srv s = (resp, srv', s') \<longrightarrow>
         (\<exists>shown c. status resp = 200 \<and>
            payload resp = Created (newToken (fst (now e s)) (fst (random e (snd (now e s))))) shown \<and>
            webhookTokens srv' = (webhookTokens srv)
              (newToken (fst (now e s)) (fst (random e (snd (now e s)))) \<mapsto>
                 \<lparr>name = shown, created = c, lastUsed = None, usageCount = 0\<rparr>)))
   \<and> (\<forall>t r t' r'. newToken t r = newToken t' r' \<longleftrightarrow> t = t' \<and> r = r')
   \<and> (\<forall>t r. newToken t r \<noteq> defaultToken)"
proof -
  have 1: "reachable e st \<longrightarrow>
      (\<forall>k\<in>dom (webhookTokens st). k = defaultToken \<or> (\<exists>t r. k = newToken t r))"
    using reachable_tokens by blast
  have 2: "defaultToken \<in> dom (webhookTokens (initial_server t0))"
    by (simp add: initial_server_def initial_tokens_def)
  have 3: "\<forall>nm resp srv' s'. destructure (body req) ''name'' = Inr nm \<and>
         post_tokens e production req srv s = (resp, srv', s') \<longrightarrow>
         (\<exists>shown c. status resp = 200 \<and>
            payload resp = Created (newToken (fst (now e s)) (fst (random e (snd (now e s))))) shown \<and>
            webhookTokens srv' = (webhookTokens srv)
              (newToken (fst (now e s)) (fst (random e (snd (now e s)))) \<mapsto>
                 \<lparr>name = shown, created = c, lastUsed = None, usageCount = 0\<rparr>))"
    using post_tokens_created [of req _ e production srv s] by blast
  from 1 2 3 newToken_inject newToken_not_default show ?thesis by blast
qed

lemma newToken_example: "newToken 0 ''k3j9x0'' = ''webhook-0-k3j9x0''"
  "newToken 1024 ''k3j9x0'' = ''webhook-1024-k3j9x0''"
  by (simp_all add: newToken_def toString_1024 toString_zero)

theorem tokens_are_default_or_generated_witness:
  "(\<exists>resp srv' s'.
      post_tokens example_env False (example_request\<lparr>body := Some (JObj [])\<rparr>) (initial_server 0) io0
        = (resp, srv', s') \<and>
      payload resp = Created ''webhook-0-k3j9x0'' (JStr ''Generated Token'') \<and>
      dom (webhookTokens srv') = {defaultToken, ''webhook-0-k3j9x0''} \<and>
      (\<forall>k\<in>dom (webhookTokens srv'). k = defaultToken \<or> (\<exists>t r. k = newToken t r)))"
proof -
  let ?req = "example_request\<lparr>body := Some (JObj [])\<rparr>"
  obtain resp srv' s' where p:
    "post_tokens example_env False ?req (initial_server 0) io0 = (resp, srv', s')"
    by (cases "post_tokens example_env False ?req (initial_server 0) io0")
  have r: "reachable example_env srv'"
    using reachable.create [OF reachable.start p] .
  note t = tokens_are_default_or_generated [of example_env srv' 0 ?req False "initial_server 0" io0]
  have d: "destructure (body ?req) ''name'' = Inr None" by simp
  have n: "newToken (fst (now example_env io0)) (fst (random example_env (snd (now example_env io0))))
      = ''webhook-0-k3j9x0''"
    by (simp add: now_def random_def example_env_def io0_def newToken_example)
  from t [THEN conjunct2, THEN conjunct2, THEN conjunct1, rule_format, OF conjI, OF d p]
  obtain shown c where s: "payload resp =
      Created (newToken (fst (now example_env io0)) (fst (random example_env (snd (now example_env io0))))) shown"
    "webhookTokens srv' = (webhookTokens (initial_server 0))
       (newToken (fst (now example_env io0)) (fst (random example_env (snd (now example_env io0)))) \<mapsto>
          \<lparr>name = shown, created = c, lastUsed = None, usageCount = 0\<rparr>)"
    by blast
  have "payload (fst (post_tokens example_env False ?req (initial_server 0) io0))
      = Created ''webhook-0-k3j9x0'' (JStr ''Generated Token'')"
    by (simp add: post_tokens_def now_def random_def example_env_def io0_def Let_def newToken_example)
  with p have 1: "payload resp = Created ''webhook-0-k3j9x0'' (JStr ''Generated Token'')"
    by simp
  from s(2) have 2: "dom (webhookTokens srv') = {defaultToken, ''webhook-0-k3j9x0''}"
    unfolding n by (auto simp: initial_server_def initial_tokens_def)
  from t [THEN conjunct1, rule_format, OF r]
  have 3: "\<forall>k\<in>dom (webhookTokens srv'). k = defaultToken \<or> (\<exists>t r. k = newToken t r)"
    by blast
  from p 1 2 3 show ?thesis by blast
qed

lemma frozen_post_tokens:
  "post_tokens frozen_env False (example_request\<lparr>body := Some (JObj [])\<rparr>) srv io0
     = (\<lparr>status = 200, success = True, message = ''Token created successfully'',
         payload = Created ''webhook-1024-k3j9x0'' (JStr ''Generated Token'')\<rparr>,
        srv\<lparr>webhookTokens := (webhookTokens srv)
          (''webhook-1024-k3j9x0'' \<mapsto>
             \<lparr>name = JStr ''Generated Token'', created = 1024, lastUsed = None, usageCount = 0\<rparr>)\<rparr>,
        io0)"
  by (simp add: post_tokens_def now_def random_def frozen_env_def io0_def Let_def newToken_example)

text \<open>
  The claim as written fails twice. The default token is the same fixed text whatever
  the clock shows at the start, so it is not made from the time and a random draw. And
  token creation under the same clock reading and the same random text returns a token
  that is a key of the store already.
\<close>

theorem token_not_fresh_counterexample:
  "dom (webhookTokens (initial_server 0)) = {''webhook-secret-2024''}
   \<and> dom (webhookTokens (initial_server 1024)) = {''webhook-secret-2024''}
   \<and> payload (fst (post_tokens frozen_env False (example_request\<lparr>body := Some (JObj [])\<rparr>)
         (fst (snd (post_tokens frozen_env False (example_request\<lparr>body := Some (JObj [])\<rparr>)
            (initial_server 0) io0)))
         (snd (snd (post_tokens frozen_env False (example_request\<lparr>body := Some (JObj [])\<rparr>)
            (initial_server 0) io0)))))
       = Created ''webhook-1024-k3j9x0'' (JStr ''Generated Token'')
   \<and> ''webhook-1024-k3j9x0'' \<in> dom (webhookTokens
         (fst (snd (post_tokens frozen_env False (example_request\<lparr>body := Some (JObj [])\<rparr>)
            (initial_server 0) io0))))"
  unfolding frozen_post_tokens snd_conv fst_conv
  by (simp add: initial_server_def initial_tokens_def defaultToken_def)


section \<open>URL discovery\<close>





















end
